theory Spec2Isabelle
  imports Main "HOL-Library.Sublist"
begin

section \<open>Python string primitives used by the mapper\<close>

text \<open>
  Strings are lists of 8-bit characters, read as the UTF-8 encoding of the Python string.
  The three standard-library operations that \<^verbatim>\<open>MediaMapper._normalize_path\<close> calls are
  written out: \<^verbatim>\<open>str.replace\<close>, \<^verbatim>\<open>urllib.parse.unquote\<close> and \<^verbatim>\<open>str.strip\<close>.
\<close>

text \<open>
  \<^verbatim>\<open>s.replace(old, new)\<close> for a non-empty \<^verbatim>\<open>old\<close>: scan from the left, and at every
  position where \<^verbatim>\<open>old\<close> starts, emit \<^verbatim>\<open>new\<close> and skip \<^verbatim>\<open>old\<close> (occurrences do not
  overlap); every occurrence is replaced, wherever it stands.
\<close>

function replace_nonempty :: "string \<Rightarrow> string \<Rightarrow> string \<Rightarrow> string" where
  "replace_nonempty [] old new = []"
| "replace_nonempty (c # cs) old new =
     (if old \<noteq> [] \<and> prefix old (c # cs)
      then new @ replace_nonempty (drop (length old) (c # cs)) old new
      else c # replace_nonempty cs old new)"
  by pat_completeness auto
termination
  by (relation "measure (\<lambda>(s, old, new). length s)") auto

text \<open>
  With an empty \<^verbatim>\<open>old\<close>, Python puts \<^verbatim>\<open>new\<close> before every character and at the end.
\<close>

definition replace :: "string \<Rightarrow> string \<Rightarrow> string \<Rightarrow> string" where
  "replace s old new =
     (if old = [] then new @ concat (map (\<lambda>c. c # new) s)
      else replace_nonempty s old new)"

definition hex_digit :: "char \<Rightarrow> nat option" where
  "hex_digit c =
     map_of (zip ''0123456789abcdefABCDEF''
               [0, 1, 2, 3, 4, 5, 6, 7, 8, 9, 10, 11, 12, 13, 14, 15, 10, 11, 12, 13, 14, 15]) c"

text \<open>
  \<^verbatim>\<open>unquote\<close> replaces every \<^verbatim>\<open>%XY\<close> with two hexadecimal digits by the byte it names,
  in one pass from the left; a \<^verbatim>\<open>%\<close> that is not followed by two hexadecimal digits stays.
  The decoded bytes are not scanned again. (Python then decodes the bytes as UTF-8 and
  puts U+FFFD for an invalid sequence; the model keeps the bytes, which is the same
  string whenever the escapes spell valid UTF-8, in particular for escapes below
  \<^verbatim>\<open>%80\<close>.)
\<close>

fun unquote :: "string \<Rightarrow> string" where
  "unquote (c # h1 # h2 # rest) =
     (if c = CHR ''%'' then
        (case (hex_digit h1, hex_digit h2) of
           (Some a, Some b) \<Rightarrow> char_of (16 * a + b) # unquote rest
         | _ \<Rightarrow> c # unquote (h1 # h2 # rest))
      else c # unquote (h1 # h2 # rest))"
| "unquote (c # cs) = c # unquote cs"
| "unquote [] = []"

text \<open>\<^verbatim>\<open>s.strip(chars)\<close>: drop the characters of \<^verbatim>\<open>chars\<close> from both ends.\<close>

definition strip :: "string \<Rightarrow> string \<Rightarrow> string" where
  "strip s chars =
     rev (dropWhile (\<lambda>c. c \<in> set chars) (rev (dropWhile (\<lambda>c. c \<in> set chars) s)))"

section \<open>Path normaliser\<close>

text \<open>
  \<^verbatim>\<open>MediaMapper._normalize_path(path, prefix_to_remove)\<close>:
  \<^verbatim>\<open>path.replace(prefix_to_remove, "")\<close>, then \<^verbatim>\<open>unquote\<close>, then \<^verbatim>\<open>strip("/")\<close>.
\<close>

definition normalize_path :: "string \<Rightarrow> string \<Rightarrow> string" where
  "normalize_path path prefix_to_remove =
     (let normalized = replace path prefix_to_remove [];
          normalized = unquote normalized
      in strip normalized ''/'')"


section \<open>Further Python primitives\<close>

text \<open>\<^verbatim>\<open>str.lower\<close>, on the ASCII letters (other bytes are left as they are).\<close>

definition lower_char :: "char \<Rightarrow> char" where
  "lower_char c =
     (case map_of (zip ''ABCDEFGHIJKLMNOPQRSTUVWXYZ'' ''abcdefghijklmnopqrstuvwxyz'') c of
        Some d \<Rightarrow> d
      | None \<Rightarrow> c)"

definition lower :: "string \<Rightarrow> string" where
  "lower s = map lower_char s"

text \<open>\<^verbatim>\<open>str(n)\<close> of an integer, and of \<^verbatim>\<open>None\<close>.\<close>

function str_nat :: "nat \<Rightarrow> string" where
  "str_nat n =
     (if n < 10 then [''0123456789'' ! n]
      else str_nat (n div 10) @ [''0123456789'' ! (n mod 10)])"
  by pat_completeness auto
termination
  by (relation "measure (\<lambda>n. n)") auto

definition str_int :: "int \<Rightarrow> string" where
  "str_int i = (if i < 0 then CHR ''-'' # str_nat (nat (- i)) else str_nat (nat i))"

definition str_opt_int :: "int option \<Rightarrow> string" where
  "str_opt_int v = (case v of None \<Rightarrow> ''None'' | Some i \<Rightarrow> str_int i)"

text \<open>
  Truthiness, as \<^verbatim>\<open>if x:\<close> and \<^verbatim>\<open>if not x:\<close> test it: \<^verbatim>\<open>None\<close>, the integer
  \<^verbatim>\<open>0\<close> and the empty string are false.
\<close>

definition truthy_id :: "int option \<Rightarrow> bool" where
  "truthy_id v = (case v of None \<Rightarrow> False | Some i \<Rightarrow> i \<noteq> 0)"

definition truthy_str :: "string option \<Rightarrow> bool" where
  "truthy_str v = (case v of None \<Rightarrow> False | Some s \<Rightarrow> s \<noteq> [])"

text \<open>
  A \<^verbatim>\<open>dict\<close> keeps its keys in insertion order; assigning to a key that is present
  replaces the value where it stands.
\<close>

definition dict_get :: "('k \<times> 'v) list \<Rightarrow> 'k \<Rightarrow> 'v option" where
  "dict_get d k = map_of d k"

fun dict_set :: "('k \<times> 'v) list \<Rightarrow> 'k \<Rightarrow> 'v \<Rightarrow> ('k \<times> 'v) list" where
  "dict_set [] k v = [(k, v)]"
| "dict_set ((k', v') # d) k v =
     (if k' = k then (k, v) # d else (k', v') # dict_set d k v)"

definition dict_del :: "('k \<times> 'v) list \<Rightarrow> 'k \<Rightarrow> ('k \<times> 'v) list" where
  "dict_del d k = filter (\<lambda>(k', v). k' \<noteq> k) d"

definition dict_of :: "('k \<times> 'v) list \<Rightarrow> ('k \<times> 'v) list" where
  "dict_of kvs = foldl (\<lambda>d (k, v). dict_set d k v) [] kvs"

section \<open>Data model\<close>

text \<open>
  The JSON objects of the three services, with the fields the code reads. A field read
  with \<^verbatim>\<open>.get\<close> is optional; \<^verbatim>\<open>tags\<close> defaults to the empty list.
\<close>

record jf_user =
  user_Name :: string
  user_Id :: string

record jf_item =
  Name :: string
  Path :: "string option"
  LastPlayedDate :: "string option"
  Tmdb :: "string option"
  SeriesName :: "string option"

record radarr_movie =
  movie_id :: int
  movie_hasFile :: bool
  movieFile_path :: string
  tmdbId :: "int option"
  movie_tags :: "int list"

record sonarr_series =
  series_id :: int

record sonarr_episode =
  episode_hasFile :: bool
  episodeFile_path :: string
  episodeFileId :: int

datatype error = TransportError | ValueError | KeyError

text \<open>The HTTP requests the mapper sends.\<close>

datatype request =
    GET_Users
  | GET_watched_movies string
  | GET_watched_episodes string
  | GET_radarr_movie
  | GET_radarr_tag
  | DELETE_radarr_movie int
  | GET_sonarr_series
  | GET_sonarr_episode int
  | GET_sonarr_tag
  | DELETE_sonarr_episodefile int
  | DELETE_sonarr_episodefile_bulk "int list"

fun mutating :: "request \<Rightarrow> bool" where
  "mutating (DELETE_radarr_movie i) = True"
| "mutating (DELETE_sonarr_episodefile i) = True"
| "mutating (DELETE_sonarr_episodefile_bulk is) = True"
| "mutating r = False"

text \<open>
  The collaborators. Every answer may depend on the requests sent before it, so a
  catalog may change after a deletion. A \<^verbatim>\<open>GET\<close> answers with the decoded JSON, or fails
  (\<^verbatim>\<open>requests\<close> raises, or \<^verbatim>\<open>raise_for_status\<close> does); a \<^verbatim>\<open>DELETE\<close> answers with
  a status code, or \<^verbatim>\<open>requests\<close> raises. \<open>utcnow\<close> gives the successive readings of
  \<^verbatim>\<open>datetime.now(timezone.utc)\<close> and \<open>fromisoformat\<close> the instant a string
  denotes, both in microseconds on the UTC timeline; \<open>fromisoformat\<close> is \<open>None\<close>
  where Python raises (a malformed string, or a timestamp without an offset, which
  cannot be compared with the cutoff). The range limits of \<^verbatim>\<open>datetime\<close> are not
  modelled.
\<close>

record world =
  jellyfin_Users :: "request list \<Rightarrow> error + jf_user list"
  jellyfin_watched_movies :: "request list \<Rightarrow> string \<Rightarrow> error + jf_item list"
  jellyfin_watched_episodes :: "request list \<Rightarrow> string \<Rightarrow> error + jf_item list"
  radarr_movie_GET :: "request list \<Rightarrow> error + radarr_movie list"
  radarr_tag_GET :: "request list \<Rightarrow> error + (int \<times> string) list"
  radarr_movie_DELETE :: "request list \<Rightarrow> int \<Rightarrow> error + nat"
  sonarr_series_GET :: "request list \<Rightarrow> error + sonarr_series list"
  sonarr_episode_GET :: "request list \<Rightarrow> int \<Rightarrow> error + sonarr_episode list"
  sonarr_tag_GET :: "request list \<Rightarrow> error + (int \<times> string) list"
  sonarr_episodefile_DELETE :: "request list \<Rightarrow> int \<Rightarrow> error + nat"
  sonarr_episodefile_bulk_DELETE :: "request list \<Rightarrow> int list \<Rightarrow> error + nat"
  utcnow :: "nat \<Rightarrow> int"
  fromisoformat :: "string \<Rightarrow> int option"

section \<open>Media mapper\<close>

text \<open>
  The state of a \<^verbatim>\<open>MediaMapper\<close>: the four path prefixes, the caches, and \<open>sent\<close>,
  the requests it has issued so far (oldest first). The base URLs and API keys only
  address the collaborators and are left out.
\<close>

record MediaMapper =
  jellyfin_movie_prefix :: string
  jellyfin_tv_prefix :: string
  radarr_prefix :: string
  sonarr_prefix :: string
  movies_cache :: "(int \<times> radarr_movie) list option"
  series_cache :: "(int \<times> sonarr_series) list option"
  episodes_cache :: "(int \<times> sonarr_episode list) list"
  tags_cache :: "(string \<times> (int \<times> string) list) list"
  sent :: "request list"

definition MediaMapper_init :: "string \<Rightarrow> string \<Rightarrow> string \<Rightarrow> string \<Rightarrow> MediaMapper" where
  "MediaMapper_init jf_movie jf_tv radarr sonarr =
     \<lparr> jellyfin_movie_prefix = jf_movie, jellyfin_tv_prefix = jf_tv,
       radarr_prefix = radarr, sonarr_prefix = sonarr,
       movies_cache = None, series_cache = None, episodes_cache = [], tags_cache = [],
       sent = [] \<rparr>"

definition send :: "MediaMapper \<Rightarrow> request \<Rightarrow> MediaMapper" where
  "send m r = m\<lparr>sent := sent m @ [r]\<rparr>"

subsection \<open>Jellyfin\<close>

definition get_jellyfin_users :: "world \<Rightarrow> MediaMapper \<Rightarrow> (error + jf_user list) \<times> MediaMapper" where
  "get_jellyfin_users w m = (jellyfin_Users w (sent m), send m GET_Users)"

definition get_jellyfin_watched_movies ::
  "world \<Rightarrow> MediaMapper \<Rightarrow> string \<Rightarrow> (error + jf_item list) \<times> MediaMapper" where
  "get_jellyfin_watched_movies w m user_id =
     (jellyfin_watched_movies w (sent m) user_id, send m (GET_watched_movies user_id))"

definition get_jellyfin_watched_episodes ::
  "world \<Rightarrow> MediaMapper \<Rightarrow> string \<Rightarrow> (error + jf_item list) \<times> MediaMapper" where
  "get_jellyfin_watched_episodes w m user_id =
     (jellyfin_watched_episodes w (sent m) user_id, send m (GET_watched_episodes user_id))"

subsection \<open>Radarr\<close>

definition get_all_radarr_movies ::
  "world \<Rightarrow> MediaMapper \<Rightarrow> (error + (int \<times> radarr_movie) list) \<times> MediaMapper" where
  "get_all_radarr_movies w m =
     (case movies_cache m of
        Some cache \<Rightarrow> (Inr cache, m)
      | None \<Rightarrow>
          (case radarr_movie_GET w (sent m) of
             Inl e \<Rightarrow> (Inl e, send m GET_radarr_movie)
           | Inr movies \<Rightarrow>
               (let cache = dict_of (map (\<lambda>x. (movie_id x, x)) (filter movie_hasFile movies))
                in (Inr cache, (send m GET_radarr_movie)\<lparr>movies_cache := Some cache\<rparr>))))"

definition get_radarr_tags ::
  "world \<Rightarrow> MediaMapper \<Rightarrow> (error + (int \<times> string) list) \<times> MediaMapper" where
  "get_radarr_tags w m =
     (case dict_get (tags_cache m) ''radarr'' of
        Some tags \<Rightarrow> (Inr tags, m)
      | None \<Rightarrow>
          (case radarr_tag_GET w (sent m) of
             Inl e \<Rightarrow> (Inl e, send m GET_radarr_tag)
           | Inr tags \<Rightarrow>
               (let d = dict_of tags
                in (Inr d, (send m GET_radarr_tag)
                             \<lparr>tags_cache := dict_set (tags_cache m) ''radarr'' d\<rparr>))))"

text \<open>The loop of \<^verbatim>\<open>find_radarr_movie_by_path\<close> over \<^verbatim>\<open>movies.items()\<close>.\<close>

fun match_movie_path :: "MediaMapper \<Rightarrow> string \<Rightarrow> (int \<times> radarr_movie) list \<Rightarrow> int option" where
  "match_movie_path m jellyfin_norm [] = None"
| "match_movie_path m jellyfin_norm ((mid, movie) # rest) =
     (if \<not> movie_hasFile movie then match_movie_path m jellyfin_norm rest
      else if jellyfin_norm = normalize_path (movieFile_path movie) (radarr_prefix m)
      then Some mid
      else match_movie_path m jellyfin_norm rest)"

definition find_radarr_movie_by_path ::
  "world \<Rightarrow> MediaMapper \<Rightarrow> string \<Rightarrow> (error + int option) \<times> MediaMapper" where
  "find_radarr_movie_by_path w m jellyfin_path =
     (case get_all_radarr_movies w m of
        (Inl e, m') \<Rightarrow> (Inl e, m')
      | (Inr movies, m') \<Rightarrow>
          (let jellyfin_norm = normalize_path jellyfin_path (jellyfin_movie_prefix m')
           in (Inr (match_movie_path m' jellyfin_norm movies), m')))"

text \<open>The loop of \<^verbatim>\<open>find_radarr_movie_by_tmdb\<close>.\<close>

fun match_movie_tmdb :: "string \<Rightarrow> (int \<times> radarr_movie) list \<Rightarrow> int option" where
  "match_movie_tmdb tmdb_id [] = None"
| "match_movie_tmdb tmdb_id ((mid, movie) # rest) =
     (if str_opt_int (tmdbId movie) = tmdb_id then Some mid
      else match_movie_tmdb tmdb_id rest)"

definition find_radarr_movie_by_tmdb ::
  "world \<Rightarrow> MediaMapper \<Rightarrow> string \<Rightarrow> (error + int option) \<times> MediaMapper" where
  "find_radarr_movie_by_tmdb w m tmdb_id =
     (case get_all_radarr_movies w m of
        (Inl e, m') \<Rightarrow> (Inl e, m')
      | (Inr movies, m') \<Rightarrow> (Inr (match_movie_tmdb tmdb_id movies), m'))"

definition delete_radarr_movie ::
  "world \<Rightarrow> MediaMapper \<Rightarrow> int \<Rightarrow> bool \<Rightarrow> (error + bool) \<times> MediaMapper" where
  "delete_radarr_movie w m mid dry_run =
     (if dry_run then (Inr True, m)
      else
        (case radarr_movie_DELETE w (sent m) mid of
           Inl e \<Rightarrow> (Inl e, send m (DELETE_radarr_movie mid))
         | Inr status \<Rightarrow>
             (let m' = send m (DELETE_radarr_movie mid) in
              if status = 200 then
                (case movies_cache m' of
                   Some cache \<Rightarrow>
                     if cache \<noteq> [] \<and> dict_get cache mid \<noteq> None
                     then (Inr True, m'\<lparr>movies_cache := Some (dict_del cache mid)\<rparr>)
                     else (Inr True, m')
                 | None \<Rightarrow> (Inr True, m'))
              else (Inr False, m'))))"

subsection \<open>Sonarr\<close>

definition get_all_sonarr_series ::
  "world \<Rightarrow> MediaMapper \<Rightarrow> (error + (int \<times> sonarr_series) list) \<times> MediaMapper" where
  "get_all_sonarr_series w m =
     (case series_cache m of
        Some cache \<Rightarrow> (Inr cache, m)
      | None \<Rightarrow>
          (case sonarr_series_GET w (sent m) of
             Inl e \<Rightarrow> (Inl e, send m GET_sonarr_series)
           | Inr series \<Rightarrow>
               (let cache = dict_of (map (\<lambda>x. (series_id x, x)) series)
                in (Inr cache, (send m GET_sonarr_series)\<lparr>series_cache := Some cache\<rparr>))))"

definition get_sonarr_episodes ::
  "world \<Rightarrow> MediaMapper \<Rightarrow> int \<Rightarrow> (error + sonarr_episode list) \<times> MediaMapper" where
  "get_sonarr_episodes w m sid =
     (case dict_get (episodes_cache m) sid of
        Some episodes \<Rightarrow> (Inr episodes, m)
      | None \<Rightarrow>
          (case sonarr_episode_GET w (sent m) sid of
             Inl e \<Rightarrow> (Inl e, send m (GET_sonarr_episode sid))
           | Inr episodes \<Rightarrow>
               (let kept = filter episode_hasFile episodes
                in (Inr kept, (send m (GET_sonarr_episode sid))
                                \<lparr>episodes_cache := dict_set (episodes_cache m) sid kept\<rparr>))))"

definition get_sonarr_tags ::
  "world \<Rightarrow> MediaMapper \<Rightarrow> (error + (int \<times> string) list) \<times> MediaMapper" where
  "get_sonarr_tags w m =
     (case dict_get (tags_cache m) ''sonarr'' of
        Some tags \<Rightarrow> (Inr tags, m)
      | None \<Rightarrow>
          (case sonarr_tag_GET w (sent m) of
             Inl e \<Rightarrow> (Inl e, send m GET_sonarr_tag)
           | Inr tags \<Rightarrow>
               (let d = dict_of tags
                in (Inr d, (send m GET_sonarr_tag)
                             \<lparr>tags_cache := dict_set (tags_cache m) ''sonarr'' d\<rparr>))))"

text \<open>The inner loop of \<^verbatim>\<open>find_sonarr_episode_by_path\<close>, over one series' episodes.\<close>

fun match_episode_path :: "MediaMapper \<Rightarrow> string \<Rightarrow> sonarr_episode list \<Rightarrow> int option" where
  "match_episode_path m jellyfin_norm [] = None"
| "match_episode_path m jellyfin_norm (episode # rest) =
     (if \<not> episode_hasFile episode then match_episode_path m jellyfin_norm rest
      else if jellyfin_norm = normalize_path (episodeFile_path episode) (sonarr_prefix m)
      then Some (episodeFileId episode)
      else match_episode_path m jellyfin_norm rest)"

text \<open>The outer loop, over \<^verbatim>\<open>series_to_search\<close>; it fetches each series' episodes.\<close>

fun search_series ::
  "world \<Rightarrow> MediaMapper \<Rightarrow> string \<Rightarrow> int list \<Rightarrow> (error + int option) \<times> MediaMapper" where
  "search_series w m jellyfin_norm [] = (Inr None, m)"
| "search_series w m jellyfin_norm (sid # rest) =
     (case get_sonarr_episodes w m sid of
        (Inl e, m') \<Rightarrow> (Inl e, m')
      | (Inr episodes, m') \<Rightarrow>
          (case match_episode_path m' jellyfin_norm episodes of
             Some file_id \<Rightarrow> (Inr (Some file_id), m')
           | None \<Rightarrow> search_series w m' jellyfin_norm rest))"

definition find_sonarr_episode_by_path ::
  "world \<Rightarrow> MediaMapper \<Rightarrow> string \<Rightarrow> int option \<Rightarrow> (error + int option) \<times> MediaMapper" where
  "find_sonarr_episode_by_path w m jellyfin_path sid =
     (let jellyfin_norm = normalize_path jellyfin_path (jellyfin_tv_prefix m);
          search_all =
            (case get_all_sonarr_series w m of
               (Inl e, m') \<Rightarrow> (Inl e, m')
             | (Inr series, m') \<Rightarrow> search_series w m' jellyfin_norm (map fst series))
      in case sid of
           Some s \<Rightarrow> if s \<noteq> 0 then search_series w m jellyfin_norm [s] else search_all
         | None \<Rightarrow> search_all)"

definition delete_sonarr_episode_file ::
  "world \<Rightarrow> MediaMapper \<Rightarrow> int \<Rightarrow> bool \<Rightarrow> (error + bool) \<times> MediaMapper" where
  "delete_sonarr_episode_file w m file_id dry_run =
     (if dry_run then (Inr True, m)
      else
        (case sonarr_episodefile_DELETE w (sent m) file_id of
           Inl e \<Rightarrow> (Inl e, send m (DELETE_sonarr_episodefile file_id))
         | Inr status \<Rightarrow>
             (let m' = send m (DELETE_sonarr_episodefile file_id) in
              if status = 200 then (Inr True, m'\<lparr>episodes_cache := []\<rparr>)
              else (Inr False, m'))))"

definition bulk_delete_sonarr_episode_files ::
  "world \<Rightarrow> MediaMapper \<Rightarrow> int list \<Rightarrow> bool \<Rightarrow> (error + bool) \<times> MediaMapper" where
  "bulk_delete_sonarr_episode_files w m file_ids dry_run =
     (if dry_run then (Inr True, m)
      else
        (case sonarr_episodefile_bulk_DELETE w (sent m) file_ids of
           Inl e \<Rightarrow> (Inl e, send m (DELETE_sonarr_episodefile_bulk file_ids))
         | Inr status \<Rightarrow>
             (let m' = send m (DELETE_sonarr_episodefile_bulk file_ids) in
              if status = 200 then (Inr True, m'\<lparr>episodes_cache := []\<rparr>)
              else (Inr False, m'))))"


section \<open>Cleanup orchestrator\<close>

record CleanupConfig =
  grace_period_days :: int
  dry_run :: bool
  keep_tag_label :: string
  primary_user_name :: string
  cfg_jellyfin_movie_prefix :: string
  cfg_jellyfin_tv_prefix :: string
  cfg_radarr_prefix :: string
  cfg_sonarr_prefix :: string

record CleanupStats =
  movies_watched :: nat
  movies_eligible :: nat
  movies_skipped_tag :: nat
  movies_skipped_not_found :: nat
  movies_deleted :: nat
  movies_failed :: nat
  episodes_watched :: nat
  episodes_eligible :: nat
  episodes_skipped_tag :: nat
  episodes_skipped_not_found :: nat
  episodes_deleted :: nat
  episodes_failed :: nat

definition CleanupStats_init :: CleanupStats where
  "CleanupStats_init =
     \<lparr> movies_watched = 0, movies_eligible = 0, movies_skipped_tag = 0,
       movies_skipped_not_found = 0, movies_deleted = 0, movies_failed = 0,
       episodes_watched = 0, episodes_eligible = 0, episodes_skipped_tag = 0,
       episodes_skipped_not_found = 0, episodes_deleted = 0, episodes_failed = 0 \<rparr>"

text \<open>
  The state of a \<^verbatim>\<open>MediaCleanup\<close>. \<open>ticks\<close> counts the readings of the clock taken so
  far, and \<open>summaries\<close> holds what \<^verbatim>\<open>print_summary\<close> has emitted (the other log lines
  are not modelled).
\<close>

record MediaCleanup =
  config :: CleanupConfig
  stats :: CleanupStats
  mapper :: MediaMapper
  primary_user_id :: string
  radarr_keep_tag_id :: "int option"
  sonarr_keep_tag_id :: "int option"
  ticks :: nat
  summaries :: "CleanupStats list"

definition get_primary_user_id ::
  "world \<Rightarrow> CleanupConfig \<Rightarrow> MediaMapper \<Rightarrow> (error + string) \<times> MediaMapper" where
  "get_primary_user_id w cfg m =
     (case get_jellyfin_users w m of
        (Inl e, m') \<Rightarrow> (Inl e, m')
      | (Inr users, m') \<Rightarrow>
          (case List.find (\<lambda>u. lower (user_Name u) = lower (primary_user_name cfg)) users of
             None \<Rightarrow> (Inl ValueError, m')
           | Some primary_user \<Rightarrow> (Inr (user_Id primary_user), m')))"

text \<open>
  The generator expression of \<^verbatim>\<open>_get_keep_tag_id\<close>: the id of the first tag, in the
  order of the dictionary, whose label is the keep label up to case.
\<close>

fun first_keep_tag :: "string \<Rightarrow> (int \<times> string) list \<Rightarrow> int option" where
  "first_keep_tag keep_label [] = None"
| "first_keep_tag keep_label ((tag_id, label) # tags) =
     (if lower label = lower keep_label then Some tag_id
      else first_keep_tag keep_label tags)"

definition get_keep_tag_id ::
  "world \<Rightarrow> CleanupConfig \<Rightarrow> MediaMapper \<Rightarrow> string \<Rightarrow> (error + int option) \<times> MediaMapper" where
  "get_keep_tag_id w cfg m service =
     (case (if service = ''radarr'' then get_radarr_tags w m else get_sonarr_tags w m) of
        (Inl e, m') \<Rightarrow> (Inl e, m')
      | (Inr tags, m') \<Rightarrow> (Inr (first_keep_tag (keep_tag_label cfg) tags), m'))"

text \<open>
  \<^verbatim>\<open>MediaCleanup.__init__\<close>. When it raises, no object exists and only the error is
  left.
\<close>

definition MediaCleanup_init :: "world \<Rightarrow> CleanupConfig \<Rightarrow> error + MediaCleanup" where
  "MediaCleanup_init w cfg =
     (let m0 = MediaMapper_init (cfg_jellyfin_movie_prefix cfg) (cfg_jellyfin_tv_prefix cfg)
                 (cfg_radarr_prefix cfg) (cfg_sonarr_prefix cfg)
      in case get_primary_user_id w cfg m0 of
           (Inl e, m1) \<Rightarrow> Inl e
         | (Inr uid, m1) \<Rightarrow>
             (case get_keep_tag_id w cfg m1 ''radarr'' of
                (Inl e, m2) \<Rightarrow> Inl e
              | (Inr radarr_keep, m2) \<Rightarrow>
                  (case get_keep_tag_id w cfg m2 ''sonarr'' of
                     (Inl e, m3) \<Rightarrow> Inl e
                   | (Inr sonarr_keep, m3) \<Rightarrow>
                       Inr \<lparr> config = cfg, stats = CleanupStats_init, mapper = m3,
                             primary_user_id = uid, radarr_keep_tag_id = radarr_keep,
                             sonarr_keep_tag_id = sonarr_keep, ticks = 0,
                             summaries = [] \<rparr>)))"

text \<open>One reading of the clock.\<close>

definition tick :: "MediaCleanup \<Rightarrow> MediaCleanup" where
  "tick c = c\<lparr>ticks := Suc (ticks c)\<rparr>"

text \<open>
  \<^verbatim>\<open>_is_past_grace_period\<close>. \<^verbatim>\<open>timedelta(days=1)\<close> is 86400000000 microseconds.
\<close>

definition is_past_grace_period ::
  "world \<Rightarrow> MediaCleanup \<Rightarrow> string \<Rightarrow> (error + bool) \<times> MediaCleanup" where
  "is_past_grace_period w c last_played_date =
     (case fromisoformat w (replace last_played_date ''Z'' ''+00:00'') of
        None \<Rightarrow> (Inl ValueError, c)
      | Some last_played \<Rightarrow>
          (let cutoff_date = utcnow w (ticks c) - grace_period_days (config c) * 86400000000
           in (Inr (last_played < cutoff_date), tick c)))"

definition has_keep_tag :: "int list \<Rightarrow> int option \<Rightarrow> bool" where
  "has_keep_tag item_tags keep_tag_id =
     (case keep_tag_id of
        None \<Rightarrow> False
      | Some k \<Rightarrow> k \<in> set item_tags)"

text \<open>The counters, each incremented by one.\<close>

definition count_movie_eligible :: "MediaCleanup \<Rightarrow> MediaCleanup" where
  "count_movie_eligible c = c\<lparr>stats := (stats c)\<lparr>movies_eligible := movies_eligible (stats c) + 1\<rparr>\<rparr>"

definition count_movie_skipped_not_found :: "MediaCleanup \<Rightarrow> MediaCleanup" where
  "count_movie_skipped_not_found c =
     c\<lparr>stats := (stats c)\<lparr>movies_skipped_not_found := movies_skipped_not_found (stats c) + 1\<rparr>\<rparr>"

definition count_movie_skipped_tag :: "MediaCleanup \<Rightarrow> MediaCleanup" where
  "count_movie_skipped_tag c =
     c\<lparr>stats := (stats c)\<lparr>movies_skipped_tag := movies_skipped_tag (stats c) + 1\<rparr>\<rparr>"

definition count_movie_deleted :: "MediaCleanup \<Rightarrow> MediaCleanup" where
  "count_movie_deleted c = c\<lparr>stats := (stats c)\<lparr>movies_deleted := movies_deleted (stats c) + 1\<rparr>\<rparr>"

definition count_movie_failed :: "MediaCleanup \<Rightarrow> MediaCleanup" where
  "count_movie_failed c = c\<lparr>stats := (stats c)\<lparr>movies_failed := movies_failed (stats c) + 1\<rparr>\<rparr>"

definition count_episode_eligible :: "MediaCleanup \<Rightarrow> MediaCleanup" where
  "count_episode_eligible c =
     c\<lparr>stats := (stats c)\<lparr>episodes_eligible := episodes_eligible (stats c) + 1\<rparr>\<rparr>"

definition count_episode_skipped_not_found :: "MediaCleanup \<Rightarrow> MediaCleanup" where
  "count_episode_skipped_not_found c =
     c\<lparr>stats := (stats c)\<lparr>episodes_skipped_not_found := episodes_skipped_not_found (stats c) + 1\<rparr>\<rparr>"

definition count_episode_deleted :: "MediaCleanup \<Rightarrow> MediaCleanup" where
  "count_episode_deleted c =
     c\<lparr>stats := (stats c)\<lparr>episodes_deleted := episodes_deleted (stats c) + 1\<rparr>\<rparr>"

definition count_episode_failed :: "MediaCleanup \<Rightarrow> MediaCleanup" where
  "count_episode_failed c =
     c\<lparr>stats := (stats c)\<lparr>episodes_failed := episodes_failed (stats c) + 1\<rparr>\<rparr>"

subsection \<open>Movies\<close>

text \<open>
  Lines 228 to 235 of \<^verbatim>\<open>cleanup_movies\<close>: the path match, then the TMDb match when
  \<^verbatim>\<open>not radarr_movie_id\<close> and the item's \<^verbatim>\<open>ProviderIds.Tmdb\<close> is truthy.
\<close>

definition resolve_radarr_movie ::
  "world \<Rightarrow> MediaMapper \<Rightarrow> jf_item \<Rightarrow> (error + int option) \<times> MediaMapper" where
  "resolve_radarr_movie w m movie =
     (let movie_path = (case Path movie of None \<Rightarrow> ''unknown'' | Some p \<Rightarrow> p) in
      case find_radarr_movie_by_path w m movie_path of
        (Inl e, m1) \<Rightarrow> (Inl e, m1)
      | (Inr radarr_movie_id, m1) \<Rightarrow>
          if \<not> truthy_id radarr_movie_id then
            (case Tmdb movie of
               None \<Rightarrow> (Inr radarr_movie_id, m1)
             | Some tmdb_id \<Rightarrow>
                 if tmdb_id \<noteq> [] then find_radarr_movie_by_tmdb w m1 tmdb_id
                 else (Inr radarr_movie_id, m1))
          else (Inr radarr_movie_id, m1))"

text \<open>
  Lines 242 to 258: the keep-tag check and the deletion of a movie that was found.
\<close>

definition delete_found_movie ::
  "world \<Rightarrow> MediaCleanup \<Rightarrow> int \<Rightarrow> (error + unit) \<times> MediaCleanup" where
  "delete_found_movie w c radarr_movie_id =
     (case get_all_radarr_movies w (mapper c) of
        (Inl e, m) \<Rightarrow> (Inl e, c\<lparr>mapper := m\<rparr>)
      | (Inr radarr_movies, m) \<Rightarrow>
          (case dict_get radarr_movies radarr_movie_id of
             None \<Rightarrow> (Inl KeyError, c\<lparr>mapper := m\<rparr>)
           | Some radarr_movie \<Rightarrow>
               if has_keep_tag (movie_tags radarr_movie) (radarr_keep_tag_id c)
               then (Inr (), count_movie_skipped_tag (c\<lparr>mapper := m\<rparr>))
               else
                 (case delete_radarr_movie w m radarr_movie_id (dry_run (config c)) of
                    (Inl e, m') \<Rightarrow> (Inl e, c\<lparr>mapper := m'\<rparr>)
                  | (Inr success, m') \<Rightarrow>
                      if success then (Inr (), count_movie_deleted (c\<lparr>mapper := m'\<rparr>))
                      else (Inr (), count_movie_failed (c\<lparr>mapper := m'\<rparr>)))))"

text \<open>
  The body of the loop of \<^verbatim>\<open>cleanup_movies\<close>. The clock is read a second time for
  the number of days that is logged. \<^verbatim>\<open>if not radarr_movie_id\<close> holds for \<^verbatim>\<open>None\<close>
  and for the id 0.
\<close>

definition process_movie ::
  "world \<Rightarrow> MediaCleanup \<Rightarrow> jf_item \<Rightarrow> (error + unit) \<times> MediaCleanup" where
  "process_movie w c movie =
     (case LastPlayedDate movie of
        None \<Rightarrow> (Inr (), c)
      | Some last_played \<Rightarrow>
          if last_played = [] then (Inr (), c)
          else
            (case is_past_grace_period w c last_played of
               (Inl e, c1) \<Rightarrow> (Inl e, c1)
             | (Inr past, c1) \<Rightarrow>
                 if \<not> past then (Inr (), tick c1)
                 else
                   (let c2 = tick (count_movie_eligible c1) in
                    case resolve_radarr_movie w (mapper c2) movie of
                      (Inl e, m) \<Rightarrow> (Inl e, c2\<lparr>mapper := m\<rparr>)
                    | (Inr radarr_movie_id, m) \<Rightarrow>
                        (case radarr_movie_id of
                           None \<Rightarrow> (Inr (), count_movie_skipped_not_found (c2\<lparr>mapper := m\<rparr>))
                         | Some mid \<Rightarrow>
                             if mid = 0
                             then (Inr (), count_movie_skipped_not_found (c2\<lparr>mapper := m\<rparr>))
                             else delete_found_movie w (c2\<lparr>mapper := m\<rparr>) mid))))"

fun process_movies ::
  "world \<Rightarrow> MediaCleanup \<Rightarrow> jf_item list \<Rightarrow> (error + unit) \<times> MediaCleanup" where
  "process_movies w c [] = (Inr (), c)"
| "process_movies w c (movie # rest) =
     (case process_movie w c movie of
        (Inl e, c') \<Rightarrow> (Inl e, c')
      | (Inr u, c') \<Rightarrow> process_movies w c' rest)"

definition cleanup_movies :: "world \<Rightarrow> MediaCleanup \<Rightarrow> (error + unit) \<times> MediaCleanup" where
  "cleanup_movies w c =
     (case get_jellyfin_watched_movies w (mapper c) (primary_user_id c) of
        (Inl e, m) \<Rightarrow> (Inl e, c\<lparr>mapper := m\<rparr>)
      | (Inr watched_movies, m) \<Rightarrow>
          process_movies w
            (c\<lparr>mapper := m, stats := (stats c)\<lparr>movies_watched := length watched_movies\<rparr>\<rparr>)
            watched_movies)"

subsection \<open>Episodes\<close>

text \<open>The grouping of the watched episodes by \<^verbatim>\<open>SeriesName\<close>, a \<^verbatim>\<open>dict\<close> of lists.\<close>

fun group_by_series ::
  "(string \<times> jf_item list) list \<Rightarrow> jf_item list \<Rightarrow> (string \<times> jf_item list) list" where
  "group_by_series d [] = d"
| "group_by_series d (episode # rest) =
     (let series_name = (case SeriesName episode of None \<Rightarrow> ''Unknown'' | Some n \<Rightarrow> n);
          d1 = (if dict_get d series_name = None then dict_set d series_name [] else d);
          d2 = (case dict_get d1 series_name of
                  None \<Rightarrow> d1
                | Some eps \<Rightarrow> dict_set d1 series_name (eps @ [episode]))
      in group_by_series d2 rest)"

text \<open>Lines 313 to 320: the deletion of an episode file that was found.\<close>

definition delete_found_episode ::
  "world \<Rightarrow> MediaCleanup \<Rightarrow> int \<Rightarrow> (error + unit) \<times> MediaCleanup" where
  "delete_found_episode w c episode_file_id =
     (case delete_sonarr_episode_file w (mapper c) episode_file_id (dry_run (config c)) of
        (Inl e, m') \<Rightarrow> (Inl e, c\<lparr>mapper := m'\<rparr>)
      | (Inr success, m') \<Rightarrow>
          if success then (Inr (), count_episode_deleted (c\<lparr>mapper := m'\<rparr>))
          else (Inr (), count_episode_failed (c\<lparr>mapper := m'\<rparr>)))"

text \<open>
  The body of the inner loop of \<^verbatim>\<open>cleanup_episodes\<close>; it has no keep-tag check.
  \<^verbatim>\<open>if not episode_file_id\<close> holds for \<^verbatim>\<open>None\<close> and for the id 0.
\<close>

definition process_episode ::
  "world \<Rightarrow> MediaCleanup \<Rightarrow> jf_item \<Rightarrow> (error + unit) \<times> MediaCleanup" where
  "process_episode w c episode =
     (let episode_path = (case Path episode of None \<Rightarrow> ''unknown'' | Some p \<Rightarrow> p) in
      case LastPlayedDate episode of
        None \<Rightarrow> (Inr (), c)
      | Some last_played \<Rightarrow>
          if last_played = [] then (Inr (), c)
          else
            (case is_past_grace_period w c last_played of
               (Inl e, c1) \<Rightarrow> (Inl e, c1)
             | (Inr past, c1) \<Rightarrow>
                 if \<not> past then (Inr (), tick c1)
                 else
                   (let c2 = tick (count_episode_eligible c1) in
                    case find_sonarr_episode_by_path w (mapper c2) episode_path None of
                      (Inl e, m) \<Rightarrow> (Inl e, c2\<lparr>mapper := m\<rparr>)
                    | (Inr episode_file_id, m) \<Rightarrow>
                        (case episode_file_id of
                           None \<Rightarrow> (Inr (), count_episode_skipped_not_found (c2\<lparr>mapper := m\<rparr>))
                         | Some file_id \<Rightarrow>
                             if file_id = 0
                             then (Inr (), count_episode_skipped_not_found (c2\<lparr>mapper := m\<rparr>))
                             else delete_found_episode w (c2\<lparr>mapper := m\<rparr>) file_id))))"

fun process_episodes ::
  "world \<Rightarrow> MediaCleanup \<Rightarrow> jf_item list \<Rightarrow> (error + unit) \<times> MediaCleanup" where
  "process_episodes w c [] = (Inr (), c)"
| "process_episodes w c (episode # rest) =
     (case process_episode w c episode of
        (Inl e, c') \<Rightarrow> (Inl e, c')
      | (Inr u, c') \<Rightarrow> process_episodes w c' rest)"

text \<open>The outer loop, over \<^verbatim>\<open>episodes_by_series.items()\<close>.\<close>

fun process_series ::
  "world \<Rightarrow> MediaCleanup \<Rightarrow> (string \<times> jf_item list) list \<Rightarrow> (error + unit) \<times> MediaCleanup" where
  "process_series w c [] = (Inr (), c)"
| "process_series w c ((series_name, episodes) # rest) =
     (case process_episodes w c episodes of
        (Inl e, c') \<Rightarrow> (Inl e, c')
      | (Inr u, c') \<Rightarrow> process_series w c' rest)"

definition cleanup_episodes :: "world \<Rightarrow> MediaCleanup \<Rightarrow> (error + unit) \<times> MediaCleanup" where
  "cleanup_episodes w c =
     (case get_jellyfin_watched_episodes w (mapper c) (primary_user_id c) of
        (Inl e, m) \<Rightarrow> (Inl e, c\<lparr>mapper := m\<rparr>)
      | (Inr watched_episodes, m) \<Rightarrow>
          process_series w
            (c\<lparr>mapper := m, stats := (stats c)\<lparr>episodes_watched := length watched_episodes\<rparr>\<rparr>)
            (group_by_series [] watched_episodes))"

subsection \<open>The run\<close>

definition print_summary :: "MediaCleanup \<Rightarrow> MediaCleanup" where
  "print_summary c = c\<lparr>summaries := summaries c @ [stats c]\<rparr>"

text \<open>
  \<^verbatim>\<open>run\<close>: both phases inside \<^verbatim>\<open>try\<close>; \<^verbatim>\<open>except\<close> logs and raises again;
  \<^verbatim>\<open>finally\<close> prints the summary.
\<close>

definition run :: "world \<Rightarrow> MediaCleanup \<Rightarrow> (error + CleanupStats) \<times> MediaCleanup" where
  "run w c =
     (case cleanup_movies w c of
        (Inl e, c1) \<Rightarrow> (Inl e, print_summary c1)
      | (Inr u, c1) \<Rightarrow>
          (case cleanup_episodes w c1 of
             (Inl e, c2) \<Rightarrow> (Inl e, print_summary c2)
           | (Inr u', c2) \<Rightarrow> (Inr (stats c2), print_summary c2)))"

section \<open>Notions used in the statements\<close>

text \<open>The items of a phase whose fate has been counted.\<close>

definition movies_settled :: "CleanupStats \<Rightarrow> nat" where
  "movies_settled st =
     movies_skipped_not_found st + movies_skipped_tag st + movies_deleted st + movies_failed st"

definition episodes_settled :: "CleanupStats \<Rightarrow> nat" where
  "episodes_settled st =
     episodes_skipped_not_found st + episodes_deleted st + episodes_failed st"

definition same_movie_stats :: "CleanupStats \<Rightarrow> CleanupStats \<Rightarrow> bool" where
  "same_movie_stats a b =
     (movies_watched a = movies_watched b \<and> movies_eligible a = movies_eligible b \<and>
      movies_skipped_tag a = movies_skipped_tag b \<and>
      movies_skipped_not_found a = movies_skipped_not_found b \<and>
      movies_deleted a = movies_deleted b \<and> movies_failed a = movies_failed b)"

definition same_episode_stats :: "CleanupStats \<Rightarrow> CleanupStats \<Rightarrow> bool" where
  "same_episode_stats a b =
     (episodes_watched a = episodes_watched b \<and> episodes_eligible a = episodes_eligible b \<and>
      episodes_skipped_tag a = episodes_skipped_tag b \<and>
      episodes_skipped_not_found a = episodes_skipped_not_found b \<and>
      episodes_deleted a = episodes_deleted b \<and> episodes_failed a = episodes_failed b)"

section \<open>A small installation, for concrete runs\<close>

text \<open>
  The clock starts at 2024-01-11T00:00:00Z and advances by a microsecond at each
  reading; with a grace period of five days the first cutoff is 2024-01-06T00:00:00Z.
\<close>

definition demo_users :: "jf_user list" where
  "demo_users = [\<lparr>user_Name = ''Admin'', user_Id = ''u1''\<rparr>]"

definition demo_radarr_movies :: "radarr_movie list" where
  "demo_radarr_movies =
     [\<lparr>movie_id = 1, movie_hasFile = True,
        movieFile_path = ''/movies/The Matrix (1999)/The Matrix (1999) REMUX-2160p.mkv'',
        tmdbId = Some 603, movie_tags = []\<rparr>,
      \<lparr>movie_id = 2, movie_hasFile = True,
        movieFile_path = ''/movies/Heat (1995)/Heat.mkv'',
        tmdbId = Some 949, movie_tags = [5]\<rparr>,
      \<lparr>movie_id = 3, movie_hasFile = True,
        movieFile_path = ''/movies/Alien (1979)/Alien.mkv'',
        tmdbId = Some 348, movie_tags = [6]\<rparr>,
      \<lparr>movie_id = 4, movie_hasFile = False,
        movieFile_path = ''/movies/Up (2009)/Up.mkv'',
        tmdbId = Some 14160, movie_tags = []\<rparr>]"

definition matrix :: jf_item where
  "matrix =
     \<lparr>Name = ''The Matrix'',
      Path = Some ''/media/movies/The Matrix (1999)/The Matrix (1999) REMUX-2160p.mkv'',
      LastPlayedDate = Some ''2024-01-01T00:00:00Z'', Tmdb = Some ''603'',
      SeriesName = None\<rparr>"

definition heat :: jf_item where
  "heat =
     \<lparr>Name = ''Heat'', Path = Some ''/media/movies/Heat (1995)/Heat.mkv'',
      LastPlayedDate = Some ''2024-01-01T00:00:00Z'', Tmdb = Some ''949'',
      SeriesName = None\<rparr>"

definition alien :: jf_item where
  "alien =
     \<lparr>Name = ''Alien'', Path = Some ''/media/movies/Alien/Alien (1979).mkv'',
      LastPlayedDate = Some ''2024-01-01T00:00:00Z'', Tmdb = Some ''348'',
      SeriesName = None\<rparr>"

definition up :: jf_item where
  "up =
     \<lparr>Name = ''Up'', Path = Some ''/media/movies/Up (2009)/Up.mkv'',
      LastPlayedDate = Some ''2024-01-01T00:00:00Z'', Tmdb = None,
      SeriesName = None\<rparr>"

definition dune :: jf_item where
  "dune =
     \<lparr>Name = ''Dune'', Path = Some ''/media/movies/Dune (2021)/Dune.mkv'',
      LastPlayedDate = Some ''2024-01-09T00:00:00Z'', Tmdb = Some ''438631'',
      SeriesName = None\<rparr>"

definition brazil :: jf_item where
  "brazil =
     \<lparr>Name = ''Brazil'', Path = Some ''/media/movies/Brazil (1985)/Brazil.mkv'',
      LastPlayedDate = Some ''2024-01-06T00:00:00Z'', Tmdb = Some ''68'',
      SeriesName = None\<rparr>"

definition tenet :: jf_item where
  "tenet =
     \<lparr>Name = ''Tenet'', Path = Some ''/media/movies/Tenet (2020)/Tenet.mkv'',
      LastPlayedDate = None, Tmdb = Some ''577922'', SeriesName = None\<rparr>"

definition pilot :: jf_item where
  "pilot =
     \<lparr>Name = ''Pilot'', Path = Some ''/media/tv/Breaking Bad/Season 01/S01E01.mkv'',
      LastPlayedDate = Some ''2024-01-01T00:00:00Z'', Tmdb = None,
      SeriesName = Some ''Breaking Bad''\<rparr>"

definition lost_episode :: jf_item where
  "lost_episode =
     \<lparr>Name = ''Gone'', Path = Some ''/media/tv/Lost/Season 01/S01E09.mkv'',
      LastPlayedDate = Some ''2024-01-01T00:00:00Z'', Tmdb = None,
      SeriesName = Some ''Lost''\<rparr>"

definition demo_episodes :: "sonarr_episode list" where
  "demo_episodes =
     [\<lparr>episode_hasFile = True,
        episodeFile_path = ''/tv/Breaking Bad/Season 01/S01E01.mkv'',
        episodeFileId = 100\<rparr>,
      \<lparr>episode_hasFile = False,
        episodeFile_path = ''/tv/Breaking Bad/Season 01/S01E02.mkv'',
        episodeFileId = 0\<rparr>]"

definition demo_world :: world where
  "demo_world =
     \<lparr>jellyfin_Users = (\<lambda>h. Inr demo_users),
      jellyfin_watched_movies = (\<lambda>h u. Inr [matrix, heat, alien, up, dune, brazil, tenet]),
      jellyfin_watched_episodes = (\<lambda>h u. Inr [pilot, lost_episode]),
      radarr_movie_GET = (\<lambda>h. Inr demo_radarr_movies),
      radarr_tag_GET = (\<lambda>h. Inr [(5, ''Keep''), (6, ''4k'')]),
      radarr_movie_DELETE = (\<lambda>h i. Inr (if i = 3 then 500 else 200)),
      sonarr_series_GET = (\<lambda>h. Inr [\<lparr>series_id = 10\<rparr>]),
      sonarr_episode_GET = (\<lambda>h s. Inr demo_episodes),
      sonarr_tag_GET = (\<lambda>h. Inr [(2, ''anime'')]),
      sonarr_episodefile_DELETE = (\<lambda>h i. Inr 200),
      sonarr_episodefile_bulk_DELETE = (\<lambda>h is. Inr 200),
      utcnow = (\<lambda>n. 1704931200000000 + int n),
      fromisoformat =
        map_of [(''2024-01-01T00:00:00+00:00'', 1704067200000000),
                (''2024-01-06T00:00:00+00:00'', 1704499200000000),
                (''2024-01-09T00:00:00+00:00'', 1704758400000000)]\<rparr>"

definition demo_config :: "bool \<Rightarrow> CleanupConfig" where
  "demo_config dry =
     \<lparr>grace_period_days = 5, dry_run = dry, keep_tag_label = ''keep'',
      primary_user_name = ''admin'',
      cfg_jellyfin_movie_prefix = ''/media/movies/'', cfg_jellyfin_tv_prefix = ''/media/tv/'',
      cfg_radarr_prefix = ''/movies/'', cfg_sonarr_prefix = ''/tv/''\<rparr>"

text \<open>The same installation with Radarr unreachable for its movie list.\<close>

definition radarr_down :: world where
  "radarr_down = demo_world\<lparr>radarr_movie_GET := (\<lambda>h. Inl TransportError)\<rparr>"

text \<open>The same with Sonarr unreachable for its series list.\<close>

definition sonarr_down :: world where
  "sonarr_down = demo_world\<lparr>sonarr_series_GET := (\<lambda>h. Inl TransportError)\<rparr>"

text \<open>The same with every deletion request failing in transport.\<close>

definition deletes_down :: world where
  "deletes_down =
     demo_world\<lparr>radarr_movie_DELETE := (\<lambda>h i. Inl TransportError),
                sonarr_episodefile_DELETE := (\<lambda>h i. Inl TransportError),
                sonarr_episodefile_bulk_DELETE := (\<lambda>h is. Inl TransportError)\<rparr>"

text \<open>The orchestrator as \<^verbatim>\<open>__init__\<close> leaves it in the installation above.\<close>

definition demo_cleanup :: "bool \<Rightarrow> MediaCleanup" where
  "demo_cleanup dry =
     \<lparr>config = demo_config dry, stats = CleanupStats_init,
      mapper =
        (MediaMapper_init ''/media/movies/'' ''/media/tv/'' ''/movies/'' ''/tv/'')
          \<lparr>tags_cache := [(''radarr'', [(5, ''Keep''), (6, ''4k'')]), (''sonarr'', [(2, ''anime'')])],
           sent := [GET_Users, GET_radarr_tag, GET_sonarr_tag]\<rparr>,
      primary_user_id = ''u1'', radarr_keep_tag_id = Some 5, sonarr_keep_tag_id = None,
      ticks = 0, summaries = []\<rparr>"

text \<open>The mapper after a dry run in that installation, with its caches populated.\<close>

definition demo_cached :: MediaMapper where
  "demo_cached = mapper (snd (run demo_world (demo_cleanup True)))"

text \<open>
  The orchestrator at the point where an eligible item of a real run has been looked up.
\<close>

definition demo_eligible :: "jf_item \<Rightarrow> MediaCleanup" where
  "demo_eligible item =
     (tick (count_movie_eligible (tick (demo_cleanup False))))
       \<lparr>mapper := snd (resolve_radarr_movie demo_world (mapper (demo_cleanup False)) item)\<rparr>"


text \<open>
  Whether the collaborator fails on a request, given the requests sent before it, and
  whether a sequence of requests is answered without a failure.
\<close>

definition failed :: "world \<Rightarrow> request list \<Rightarrow> request \<Rightarrow> bool" where
  "failed w h r =
     (case r of
        GET_Users \<Rightarrow> isl (jellyfin_Users w h)
      | GET_watched_movies u \<Rightarrow> isl (jellyfin_watched_movies w h u)
      | GET_watched_episodes u \<Rightarrow> isl (jellyfin_watched_episodes w h u)
      | GET_radarr_movie \<Rightarrow> isl (radarr_movie_GET w h)
      | GET_radarr_tag \<Rightarrow> isl (radarr_tag_GET w h)
      | DELETE_radarr_movie i \<Rightarrow> isl (radarr_movie_DELETE w h i)
      | GET_sonarr_series \<Rightarrow> isl (sonarr_series_GET w h)
      | GET_sonarr_episode s \<Rightarrow> isl (sonarr_episode_GET w h s)
      | GET_sonarr_tag \<Rightarrow> isl (sonarr_tag_GET w h)
      | DELETE_sonarr_episodefile i \<Rightarrow> isl (sonarr_episodefile_DELETE w h i)
      | DELETE_sonarr_episodefile_bulk is \<Rightarrow> isl (sonarr_episodefile_bulk_DELETE w h is))"

fun answered :: "world \<Rightarrow> request list \<Rightarrow> request list \<Rightarrow> bool" where
  "answered w h [] = True"
| "answered w h (r # rs) = (\<not> failed w h r \<and> answered w (h @ [r]) rs)"

text \<open>The mapper \<open>m'\<close> continues \<open>m\<close> with requests that were all answered.\<close>

definition all_answered :: "world \<Rightarrow> MediaMapper \<Rightarrow> MediaMapper \<Rightarrow> bool" where
  "all_answered w m m' = (\<exists>new. sent m' = sent m @ new \<and> answered w (sent m) new)"

section \<open>Facts about the string primitives\<close>

lemma dropWhile_rev_fix:
  assumes "ys = [] \<or> \<not> P (hd ys)"
  shows "dropWhile P (rev (dropWhile P (rev ys))) = rev (dropWhile P (rev ys))"
proof (cases "dropWhile P (rev ys) = []")
  case True
  then show ?thesis by (simp del: dropWhile_eq_Nil_conv)
next
  case False
  define zs where "zs = dropWhile P (rev ys)"
  have "rev ys = takeWhile P (rev ys) @ zs"
    by (simp add: zs_def)
  then have ys: "ys = rev zs @ rev (takeWhile P (rev ys))"
    by (metis rev_append rev_rev_ident)
  from False have nz: "rev zs \<noteq> []" by (simp add: zs_def)
  with ys have "hd (rev zs) = hd ys" by (metis hd_append2)
  moreover from ys nz have "ys \<noteq> []" by auto
  ultimately have "\<not> P (hd (rev zs))" using assms by auto
  with nz have "dropWhile P (rev zs) = rev zs"
    by (cases "rev zs") auto
  then show ?thesis by (simp add: zs_def)
qed

lemma strip_idem: "strip (strip s cs) cs = strip s cs"
proof -
  let ?P = "\<lambda>c. c \<in> set cs"
  let ?ys = "dropWhile ?P s"
  have "?ys = [] \<or> \<not> ?P (hd ?ys)"
    using hd_dropWhile by (metis (mono_tags, lifting))
  then have "dropWhile ?P (rev (dropWhile ?P (rev ?ys))) = rev (dropWhile ?P (rev ?ys))"
    by (rule dropWhile_rev_fix)
  then show ?thesis
    by (simp add: strip_def dropWhile_idem)
qed

lemma strip_length: "length (strip s cs) \<le> length s"
  unfolding strip_def
  by (metis length_dropWhile_le length_rev order_trans)


lemma unquote_length: "length (unquote s) \<le> length s"
proof (induction "length s" arbitrary: s rule: less_induct)
  case less
  show ?case
  proof (cases s)
    case Nil
    then show ?thesis by simp
  next
    case (Cons c cs)
    note s1 = this
    show ?thesis
    proof (cases cs)
      case Nil
      with s1 show ?thesis by simp
    next
      case (Cons h1 cs')
      note s2 = this
      show ?thesis
      proof (cases cs')
        case Nil
        with s1 s2 show ?thesis by simp
      next
        case (Cons h2 rest)
        have r: "length (unquote rest) \<le> length rest"
          using less[of rest] s1 s2 Cons by simp
        have t: "length (unquote (h1 # h2 # rest)) \<le> length (h1 # h2 # rest)"
          using less[of "h1 # h2 # rest"] s1 s2 Cons by simp
        show ?thesis
          using r t s1 s2 Cons by (simp split: option.splits)
      qed
    qed
  qed
qed


lemma unquote_length_eq: "length (unquote s) = length s \<Longrightarrow> unquote s = s"
proof (induction "length s" arbitrary: s rule: less_induct)
  case less
  show ?case
  proof (cases s)
    case Nil
    then show ?thesis by simp
  next
    case (Cons c cs)
    note s1 = this
    show ?thesis
    proof (cases cs)
      case Nil
      with s1 show ?thesis by simp
    next
      case (Cons h1 cs')
      note s2 = this
      show ?thesis
      proof (cases cs')
        case Nil
        with s1 s2 show ?thesis by simp
      next
        case (Cons h2 rest)
        have r: "length (unquote rest) \<le> length rest"
          by (rule unquote_length)
        have t: "length (unquote (h1 # h2 # rest)) = length (h1 # h2 # rest)
                 \<Longrightarrow> unquote (h1 # h2 # rest) = h1 # h2 # rest"
          using less(1)[of "h1 # h2 # rest"] s1 s2 Cons by simp
        show ?thesis
          using r t s1 s2 Cons less(2) by (simp split: option.splits if_splits)
      qed
    qed
  qed
qed

lemma replace_empty: "replace s [] [] = s"
  by (induction s) (auto simp: replace_def)

lemma normalize_again:
  "normalize_path s [] = strip (unquote s) ''/''"
  by (simp add: normalize_path_def replace_empty)

section \<open>Effects of the building blocks\<close>

lemmas count_defs =
  count_movie_eligible_def count_movie_skipped_not_found_def count_movie_skipped_tag_def
  count_movie_deleted_def count_movie_failed_def count_episode_eligible_def
  count_episode_skipped_not_found_def count_episode_deleted_def count_episode_failed_def

lemmas stats_defs = movies_settled_def episodes_settled_def same_movie_stats_def
  same_episode_stats_def

lemma is_past_grace_period_effect:
  assumes "is_past_grace_period w c lp = (r, c')"
  shows "case r of Inl e \<Rightarrow> c' = c | Inr b \<Rightarrow> c' = tick c"
  using assms by (auto simp: is_past_grace_period_def Let_def split: option.splits)

lemma delete_found_movie_effect:
  assumes "delete_found_movie w c i = (r, c')"
  shows "same_episode_stats (stats c') (stats c) \<and>
         movies_watched (stats c') = movies_watched (stats c) \<and>
         movies_eligible (stats c') = movies_eligible (stats c) \<and>
         config c' = config c \<and> summaries c' = summaries c \<and>
         radarr_keep_tag_id c' = radarr_keep_tag_id c \<and>
         (case r of
            Inr u \<Rightarrow> movies_settled (stats c') = movies_settled (stats c) + 1
          | Inl e \<Rightarrow> stats c' = stats c)"
  using assms
  by (auto simp: delete_found_movie_def count_defs stats_defs
           split: prod.splits sum.splits option.splits if_splits)

lemma delete_found_episode_effect:
  assumes "delete_found_episode w c i = (r, c')"
  shows "same_movie_stats (stats c') (stats c) \<and>
         episodes_watched (stats c') = episodes_watched (stats c) \<and>
         episodes_eligible (stats c') = episodes_eligible (stats c) \<and>
         episodes_skipped_tag (stats c') = episodes_skipped_tag (stats c) \<and>
         config c' = config c \<and> summaries c' = summaries c \<and>
         (case r of
            Inr u \<Rightarrow> episodes_settled (stats c') = episodes_settled (stats c) + 1
          | Inl e \<Rightarrow> stats c' = stats c)"
  using assms
  by (auto simp: delete_found_episode_def count_defs stats_defs
           split: prod.splits sum.splits option.splits if_splits)

lemma process_movie_effect:
  assumes "process_movie w c movie = (r, c')"
  shows "same_episode_stats (stats c') (stats c) \<and>
         movies_watched (stats c') = movies_watched (stats c) \<and>
         movies_eligible (stats c') \<le> movies_eligible (stats c) + 1 \<and>
         config c' = config c \<and> summaries c' = summaries c \<and>
         (case r of
            Inr u \<Rightarrow> movies_settled (stats c') + movies_eligible (stats c)
                      = movies_settled (stats c) + movies_eligible (stats c')
          | Inl e \<Rightarrow> True)"
  using assms
  apply (simp add: process_movie_def Let_def
              split: option.splits if_splits prod.splits sum.splits)
  apply (auto simp: stats_defs tick_def count_defs
              dest!: is_past_grace_period_effect delete_found_movie_effect
              split: sum.splits)
  done

lemma process_episode_effect:
  assumes "process_episode w c episode = (r, c')"
  shows "same_movie_stats (stats c') (stats c) \<and>
         episodes_watched (stats c') = episodes_watched (stats c) \<and>
         episodes_eligible (stats c') \<le> episodes_eligible (stats c) + 1 \<and>
         episodes_skipped_tag (stats c') = episodes_skipped_tag (stats c) \<and>
         config c' = config c \<and> summaries c' = summaries c \<and>
         (case r of
            Inr u \<Rightarrow> episodes_settled (stats c') + episodes_eligible (stats c)
                      = episodes_settled (stats c) + episodes_eligible (stats c')
          | Inl e \<Rightarrow> True)"
  using assms
  apply (simp add: process_episode_def Let_def
              split: option.splits if_splits prod.splits sum.splits)
  apply (auto simp: stats_defs tick_def count_defs
              dest!: is_past_grace_period_effect delete_found_episode_effect
              split: sum.splits)
  done

lemma process_movies_effect:
  "process_movies w c movies = (r, c') \<Longrightarrow>
     same_episode_stats (stats c') (stats c) \<and>
     movies_watched (stats c') = movies_watched (stats c) \<and>
     movies_eligible (stats c') \<le> movies_eligible (stats c) + length movies \<and>
     config c' = config c \<and> summaries c' = summaries c \<and>
     (case r of
        Inr u \<Rightarrow> movies_settled (stats c') + movies_eligible (stats c)
                  = movies_settled (stats c) + movies_eligible (stats c')
      | Inl e \<Rightarrow> True)"
proof (induction movies arbitrary: c)
  case Nil
  then show ?case by (auto simp: stats_defs)
next
  case (Cons movie rest)
  obtain r1 c1 where step: "process_movie w c movie = (r1, c1)"
    by (cases "process_movie w c movie")
  note e1 = process_movie_effect[OF step]
  show ?case
  proof (cases r1)
    case (Inl e)
    with Cons.prems step e1 show ?thesis by (auto simp: stats_defs)
  next
    case (Inr u)
    with Cons.prems step have rest: "process_movies w c1 rest = (r, c')" by simp
    note e2 = Cons.IH[OF rest]
    from e1 e2 Inr show ?thesis
      by (auto simp: stats_defs split: sum.splits)
  qed
qed

lemma process_episodes_effect:
  "process_episodes w c episodes = (r, c') \<Longrightarrow>
     same_movie_stats (stats c') (stats c) \<and>
     episodes_watched (stats c') = episodes_watched (stats c) \<and>
     episodes_eligible (stats c') \<le> episodes_eligible (stats c) + length episodes \<and>
     episodes_skipped_tag (stats c') = episodes_skipped_tag (stats c) \<and>
     config c' = config c \<and> summaries c' = summaries c \<and>
     (case r of
        Inr u \<Rightarrow> episodes_settled (stats c') + episodes_eligible (stats c)
                  = episodes_settled (stats c) + episodes_eligible (stats c')
      | Inl e \<Rightarrow> True)"
proof (induction episodes arbitrary: c)
  case Nil
  then show ?case by (auto simp: stats_defs)
next
  case (Cons episode rest)
  obtain r1 c1 where step: "process_episode w c episode = (r1, c1)"
    by (cases "process_episode w c episode")
  note e1 = process_episode_effect[OF step]
  show ?case
  proof (cases r1)
    case (Inl e)
    with Cons.prems step e1 show ?thesis by (auto simp: stats_defs)
  next
    case (Inr u)
    with Cons.prems step have rest: "process_episodes w c1 rest = (r, c')" by simp
    note e2 = Cons.IH[OF rest]
    from e1 e2 Inr show ?thesis
      by (auto simp: stats_defs split: sum.splits)
  qed
qed

lemma process_series_effect:
  "process_series w c groups = (r, c') \<Longrightarrow>
     same_movie_stats (stats c') (stats c) \<and>
     episodes_watched (stats c') = episodes_watched (stats c) \<and>
     episodes_eligible (stats c') \<le> episodes_eligible (stats c) + length (concat (map snd groups)) \<and>
     episodes_skipped_tag (stats c') = episodes_skipped_tag (stats c) \<and>
     config c' = config c \<and> summaries c' = summaries c \<and>
     (case r of
        Inr u \<Rightarrow> episodes_settled (stats c') + episodes_eligible (stats c)
                  = episodes_settled (stats c) + episodes_eligible (stats c')
      | Inl e \<Rightarrow> True)"
proof (induction groups arbitrary: c)
  case Nil
  then show ?case by (auto simp: stats_defs)
next
  case (Cons g rest)
  obtain name episodes where g: "g = (name, episodes)" by (cases g)
  obtain r1 c1 where step: "process_episodes w c episodes = (r1, c1)"
    by (cases "process_episodes w c episodes")
  note e1 = process_episodes_effect[OF step]
  show ?case
  proof (cases r1)
    case (Inl e)
    with Cons.prems step e1 g show ?thesis by (auto simp: stats_defs)
  next
    case (Inr u)
    with Cons.prems step g have rest: "process_series w c1 rest = (r, c')" by simp
    note e2 = Cons.IH[OF rest]
    from e1 e2 Inr g show ?thesis
      by (auto simp: stats_defs split: sum.splits)
  qed
qed

lemma dict_get_set_same: "dict_get (dict_set d k v) k = Some v"
  by (induction d) (auto simp: dict_get_def)

lemma length_dict_set_present:
  "dict_get d k = Some old \<Longrightarrow>
     length (concat (map snd (dict_set d k v))) + length old
     = length (concat (map snd d)) + length v"
  by (induction d) (auto simp: dict_get_def split: if_splits)

lemma length_dict_set_absent:
  "dict_get d k = None \<Longrightarrow>
     length (concat (map snd (dict_set d k v))) = length (concat (map snd d)) + length v"
  by (induction d) (auto simp: dict_get_def split: if_splits)

lemma length_group_by_series:
  "length (concat (map snd (group_by_series d episodes)))
   = length (concat (map snd d)) + length episodes"
proof (induction episodes arbitrary: d)
  case Nil
  show ?case by simp
next
  case (Cons episode rest)
  let ?n = "case SeriesName episode of None \<Rightarrow> ''Unknown'' | Some n \<Rightarrow> n"
  show ?case
  proof (cases "dict_get d ?n")
    case None
    have "length (concat (map snd (dict_set (dict_set d ?n []) ?n [episode])))
          = length (concat (map snd d)) + 1"
      using length_dict_set_present[of "dict_set d ?n []" ?n "[]" "[episode]"]
            length_dict_set_absent[OF None, of "[]"]
      by (simp add: dict_get_set_same)
    with None show ?thesis
      by (simp add: Let_def dict_get_set_same Cons.IH)
  next
    case (Some eps)
    have "length (concat (map snd (dict_set d ?n (eps @ [episode]))))
          = length (concat (map snd d)) + 1"
      using length_dict_set_present[OF Some, of "eps @ [episode]"] by simp
    with Some show ?thesis
      by (simp add: Let_def Cons.IH)
  qed
qed

lemma cleanup_movies_effect:
  assumes "cleanup_movies w c = (r, c')"
  shows "same_episode_stats (stats c') (stats c) \<and>
         config c' = config c \<and> summaries c' = summaries c \<and>
         movies_eligible (stats c') \<le> movies_eligible (stats c) + movies_watched (stats c') \<and>
         (case r of
            Inr u \<Rightarrow> movies_settled (stats c') + movies_eligible (stats c)
                      = movies_settled (stats c) + movies_eligible (stats c')
          | Inl e \<Rightarrow> True)"
proof (cases "jellyfin_watched_movies w (sent (mapper c)) (primary_user_id c)")
  case (Inl e)
  with assms show ?thesis
    by (auto simp: cleanup_movies_def get_jellyfin_watched_movies_def stats_defs)
next
  case (Inr watched)
  let ?c0 = "c\<lparr>mapper := send (mapper c) (GET_watched_movies (primary_user_id c)),
               stats := (stats c)\<lparr>movies_watched := length watched\<rparr>\<rparr>"
  from assms Inr have "process_movies w ?c0 watched = (r, c')"
    by (simp add: cleanup_movies_def get_jellyfin_watched_movies_def)
  from process_movies_effect[OF this] show ?thesis
    by (auto simp: stats_defs split: sum.splits)
qed

lemma cleanup_episodes_effect:
  assumes "cleanup_episodes w c = (r, c')"
  shows "same_movie_stats (stats c') (stats c) \<and>
         episodes_skipped_tag (stats c') = episodes_skipped_tag (stats c) \<and>
         config c' = config c \<and> summaries c' = summaries c \<and>
         episodes_eligible (stats c') \<le> episodes_eligible (stats c) + episodes_watched (stats c') \<and>
         (case r of
            Inr u \<Rightarrow> episodes_settled (stats c') + episodes_eligible (stats c)
                      = episodes_settled (stats c) + episodes_eligible (stats c')
          | Inl e \<Rightarrow> True)"
proof (cases "jellyfin_watched_episodes w (sent (mapper c)) (primary_user_id c)")
  case (Inl e)
  with assms show ?thesis
    by (auto simp: cleanup_episodes_def get_jellyfin_watched_episodes_def stats_defs)
next
  case (Inr watched)
  let ?c0 = "c\<lparr>mapper := send (mapper c) (GET_watched_episodes (primary_user_id c)),
               stats := (stats c)\<lparr>episodes_watched := length watched\<rparr>\<rparr>"
  from assms Inr have "process_series w ?c0 (group_by_series [] watched) = (r, c')"
    by (simp add: cleanup_episodes_def get_jellyfin_watched_episodes_def)
  from process_series_effect[OF this] show ?thesis
    by (auto simp: stats_defs length_group_by_series split: sum.splits)
qed

section \<open>Requests of an operation that returns\<close>

lemma answered_append:
  "answered w h (a @ b) = (answered w h a \<and> answered w (h @ a) b)"
  by (induction a arbitrary: h) auto

lemma all_answered_refl: "all_answered w m m"
  by (simp add: all_answered_def)

lemma all_answered_trans:
  assumes "all_answered w m m1" and "all_answered w m1 m2"
  shows "all_answered w m m2"
proof -
  from assms obtain a b where a: "sent m1 = sent m @ a" "answered w (sent m) a"
    and b: "sent m2 = sent m1 @ b" "answered w (sent m1) b"
    by (auto simp: all_answered_def)
  then have "sent m2 = sent m @ (a @ b) \<and> answered w (sent m) (a @ b)"
    by (simp add: answered_append)
  then show ?thesis unfolding all_answered_def by blast
qed

lemma all_answered_send:
  assumes "\<not> failed w (sent m) r" and "sent m' = sent m @ [r]"
  shows "all_answered w m m'"
  unfolding all_answered_def using assms by (intro exI[of _ "[r]"]) simp

lemma get_jellyfin_watched_movies_answered:
  "get_jellyfin_watched_movies w m u = (Inr x, m') \<Longrightarrow> all_answered w m m'"
  by (rule all_answered_send[of _ _ "GET_watched_movies u"])
     (auto simp: get_jellyfin_watched_movies_def failed_def send_def)

lemma get_jellyfin_watched_episodes_answered:
  "get_jellyfin_watched_episodes w m u = (Inr x, m') \<Longrightarrow> all_answered w m m'"
  by (rule all_answered_send[of _ _ "GET_watched_episodes u"])
     (auto simp: get_jellyfin_watched_episodes_def failed_def send_def)

lemma get_all_radarr_movies_answered:
  assumes "get_all_radarr_movies w m = (Inr x, m')"
  shows "all_answered w m m'"
proof (cases "movies_cache m")
  case None
  with assms show ?thesis
    by (intro all_answered_send[of _ _ GET_radarr_movie])
       (auto simp: get_all_radarr_movies_def failed_def send_def Let_def split: sum.splits)
next
  case (Some cache)
  with assms show ?thesis
    by (auto simp: get_all_radarr_movies_def intro: all_answered_refl)
qed

lemma find_radarr_movie_by_path_answered:
  "find_radarr_movie_by_path w m p = (Inr x, m') \<Longrightarrow> all_answered w m m'"
  by (auto simp: find_radarr_movie_by_path_def Let_def split: prod.splits sum.splits
           dest: get_all_radarr_movies_answered)

lemma find_radarr_movie_by_tmdb_answered:
  "find_radarr_movie_by_tmdb w m t = (Inr x, m') \<Longrightarrow> all_answered w m m'"
  by (auto simp: find_radarr_movie_by_tmdb_def split: prod.splits sum.splits
           dest: get_all_radarr_movies_answered)

lemma delete_radarr_movie_answered:
  assumes "delete_radarr_movie w m mid dry = (Inr x, m')"
  shows "all_answered w m m'"
proof (cases dry)
  case True
  with assms show ?thesis by (auto simp: delete_radarr_movie_def intro: all_answered_refl)
next
  case False
  with assms show ?thesis
    by (intro all_answered_send[of _ _ "DELETE_radarr_movie mid"])
       (auto simp: delete_radarr_movie_def failed_def send_def Let_def
             split: sum.splits option.splits if_splits)
qed

lemma get_all_sonarr_series_answered:
  assumes "get_all_sonarr_series w m = (Inr x, m')"
  shows "all_answered w m m'"
proof (cases "series_cache m")
  case None
  with assms show ?thesis
    by (intro all_answered_send[of _ _ GET_sonarr_series])
       (auto simp: get_all_sonarr_series_def failed_def send_def Let_def split: sum.splits)
next
  case (Some cache)
  with assms show ?thesis
    by (auto simp: get_all_sonarr_series_def intro: all_answered_refl)
qed

lemma get_sonarr_episodes_answered:
  assumes "get_sonarr_episodes w m sid = (Inr x, m')"
  shows "all_answered w m m'"
proof (cases "dict_get (episodes_cache m) sid")
  case None
  with assms show ?thesis
    by (intro all_answered_send[of _ _ "GET_sonarr_episode sid"])
       (auto simp: get_sonarr_episodes_def failed_def send_def Let_def split: sum.splits)
next
  case (Some cache)
  with assms show ?thesis
    by (auto simp: get_sonarr_episodes_def intro: all_answered_refl)
qed

lemma search_series_answered:
  "search_series w m norm sids = (Inr x, m') \<Longrightarrow> all_answered w m m'"
proof (induction sids arbitrary: m)
  case Nil
  then show ?case by (auto intro: all_answered_refl)
next
  case (Cons sid rest)
  obtain r1 m1 where g: "get_sonarr_episodes w m sid = (r1, m1)"
    by (cases "get_sonarr_episodes w m sid")
  with Cons.prems obtain eps where r1: "r1 = Inr eps" by (cases r1) auto
  note a1 = get_sonarr_episodes_answered[OF g[unfolded r1]]
  show ?case
  proof (cases "match_episode_path m1 norm eps")
    case None
    with Cons.prems g r1 have "search_series w m1 norm rest = (Inr x, m')" by simp
    from all_answered_trans[OF a1 Cons.IH[OF this]] show ?thesis .
  next
    case (Some fid)
    with Cons.prems g r1 have "m' = m1" by simp
    with a1 show ?thesis by simp
  qed
qed

lemma find_sonarr_episode_by_path_answered:
  assumes "find_sonarr_episode_by_path w m p sid = (Inr x, m')"
  shows "all_answered w m m'"
proof -
  let ?norm = "normalize_path p (jellyfin_tv_prefix m)"
  have all: "all_answered w m m'"
    if "(case get_all_sonarr_series w m of
           (Inl e, m1) \<Rightarrow> (Inl e, m1)
         | (Inr series, m1) \<Rightarrow> search_series w m1 ?norm (map fst series)) = (Inr x, m')"
  proof -
    obtain r1 m1 where g: "get_all_sonarr_series w m = (r1, m1)"
      by (cases "get_all_sonarr_series w m")
    with that obtain series where r1: "r1 = Inr series" by (cases r1) auto
    from that g r1 have "search_series w m1 ?norm (map fst series) = (Inr x, m')" by simp
    from all_answered_trans[OF get_all_sonarr_series_answered[OF g[unfolded r1]]
           search_series_answered[OF this]]
    show ?thesis .
  qed
  show ?thesis
  proof (cases sid)
    case None
    with assms all show ?thesis by (simp add: find_sonarr_episode_by_path_def Let_def)
  next
    case (Some s)
    show ?thesis
    proof (cases "s = 0")
      case True
      with Some assms all show ?thesis by (simp add: find_sonarr_episode_by_path_def Let_def)
    next
      case False
      with Some assms have "search_series w m ?norm [s] = (Inr x, m')"
        by (simp add: find_sonarr_episode_by_path_def Let_def)
      then show ?thesis by (rule search_series_answered)
    qed
  qed
qed

lemma delete_sonarr_episode_file_answered:
  assumes "delete_sonarr_episode_file w m fid dry = (Inr x, m')"
  shows "all_answered w m m'"
proof (cases dry)
  case True
  with assms show ?thesis by (auto simp: delete_sonarr_episode_file_def intro: all_answered_refl)
next
  case False
  with assms show ?thesis
    by (intro all_answered_send[of _ _ "DELETE_sonarr_episodefile fid"])
       (auto simp: delete_sonarr_episode_file_def failed_def send_def Let_def
             split: sum.splits if_splits)
qed

lemma resolve_radarr_movie_answered:
  assumes "resolve_radarr_movie w m movie = (Inr x, m')"
  shows "all_answered w m m'"
proof -
  let ?p = "case Path movie of None \<Rightarrow> ''unknown'' | Some p \<Rightarrow> p"
  obtain r1 m1 where f: "find_radarr_movie_by_path w m ?p = (r1, m1)"
    by (cases "find_radarr_movie_by_path w m ?p")
  with assms obtain found where r1: "r1 = Inr found"
    by (cases r1) (auto simp: resolve_radarr_movie_def)
  note a1 = find_radarr_movie_by_path_answered[OF f[unfolded r1]]
  from assms f r1 have "m' = m1 \<or> (\<exists>t. find_radarr_movie_by_tmdb w m1 t = (Inr x, m'))"
    by (auto simp: resolve_radarr_movie_def split: if_splits option.splits)
  then show ?thesis
    using a1 all_answered_trans[OF a1 find_radarr_movie_by_tmdb_answered] by auto
qed

lemma delete_found_movie_answered:
  assumes "delete_found_movie w c mid = (Inr u, c')"
  shows "all_answered w (mapper c) (mapper c')"
proof -
  obtain r1 m1 where g: "get_all_radarr_movies w (mapper c) = (r1, m1)"
    by (cases "get_all_radarr_movies w (mapper c)")
  with assms obtain movies where r1: "r1 = Inr movies"
    by (cases r1) (auto simp: delete_found_movie_def)
  note a1 = get_all_radarr_movies_answered[OF g[unfolded r1]]
  from assms g r1
  have "mapper c' = m1 \<or> (\<exists>ok. delete_radarr_movie w m1 mid (dry_run (config c)) = (Inr ok, mapper c'))"
    by (auto simp: delete_found_movie_def count_defs
             split: option.splits if_splits prod.splits sum.splits)
  then show ?thesis
    using a1 all_answered_trans[OF a1 delete_radarr_movie_answered] by auto
qed

lemma delete_found_episode_answered:
  assumes "delete_found_episode w c fid = (Inr u, c')"
  shows "all_answered w (mapper c) (mapper c')"
proof -
  from assms
  have "\<exists>ok. delete_sonarr_episode_file w (mapper c) fid (dry_run (config c)) = (Inr ok, mapper c')"
    by (auto simp: delete_found_episode_def count_defs split: if_splits prod.splits sum.splits)
  then show ?thesis
    using delete_sonarr_episode_file_answered by auto
qed

lemma process_movie_answered:
  assumes "process_movie w c movie = (Inr u, c')"
  shows "all_answered w (mapper c) (mapper c')"
proof (cases "truthy_str (LastPlayedDate movie)")
  case False
  with assms have "c' = c"
    by (auto simp: process_movie_def truthy_str_def split: option.splits)
  then show ?thesis by (simp add: all_answered_refl)
next
  case True
  then obtain lp where lp: "LastPlayedDate movie = Some lp" "lp \<noteq> []"
    by (auto simp: truthy_str_def split: option.splits)
  obtain r1 c1 where g: "is_past_grace_period w c lp = (r1, c1)"
    by (cases "is_past_grace_period w c lp")
  with assms lp obtain past where r1: "r1 = Inr past"
    by (cases r1) (auto simp: process_movie_def)
  from is_past_grace_period_effect[OF g] r1 have c1: "c1 = tick c" by simp
  show ?thesis
  proof (cases past)
    case False
    with assms lp g r1 c1 have "c' = tick (tick c)" by (simp add: process_movie_def)
    then show ?thesis by (simp add: tick_def all_answered_refl)
  next
    case True
    let ?c2 = "tick (count_movie_eligible c1)"
    have m2: "mapper ?c2 = mapper c" by (simp add: c1 tick_def count_defs)
    obtain r2 m where res: "resolve_radarr_movie w (mapper c) movie = (r2, m)"
      by (cases "resolve_radarr_movie w (mapper c) movie")
    with assms lp g r1 True m2 obtain found where r2: "r2 = Inr found"
      by (cases r2) (auto simp: process_movie_def Let_def)
    note a1 = resolve_radarr_movie_answered[OF res[unfolded r2]]
    from assms lp g r1 True m2 res r2
    have "mapper c' = m \<or> (\<exists>mid. delete_found_movie w (?c2\<lparr>mapper := m\<rparr>) mid = (Inr u, c'))"
      by (auto simp: process_movie_def Let_def count_defs split: option.splits if_splits)
    then show ?thesis
    proof
      assume "mapper c' = m"
      with a1 show ?thesis by simp
    next
      assume "\<exists>mid. delete_found_movie w (?c2\<lparr>mapper := m\<rparr>) mid = (Inr u, c')"
      then obtain mid where "delete_found_movie w (?c2\<lparr>mapper := m\<rparr>) mid = (Inr u, c')" ..
      from delete_found_movie_answered[OF this] have "all_answered w m (mapper c')" by simp
      with a1 show ?thesis by (rule all_answered_trans)
    qed
  qed
qed

lemma process_episode_answered:
  assumes "process_episode w c episode = (Inr u, c')"
  shows "all_answered w (mapper c) (mapper c')"
proof (cases "truthy_str (LastPlayedDate episode)")
  case False
  with assms have "c' = c"
    by (auto simp: process_episode_def truthy_str_def split: option.splits)
  then show ?thesis by (simp add: all_answered_refl)
next
  case True
  then obtain lp where lp: "LastPlayedDate episode = Some lp" "lp \<noteq> []"
    by (auto simp: truthy_str_def split: option.splits)
  obtain r1 c1 where g: "is_past_grace_period w c lp = (r1, c1)"
    by (cases "is_past_grace_period w c lp")
  with assms lp obtain past where r1: "r1 = Inr past"
    by (cases r1) (auto simp: process_episode_def)
  from is_past_grace_period_effect[OF g] r1 have c1: "c1 = tick c" by simp
  show ?thesis
  proof (cases past)
    case False
    with assms lp g r1 c1 have "c' = tick (tick c)" by (simp add: process_episode_def)
    then show ?thesis by (simp add: tick_def all_answered_refl)
  next
    case True
    let ?c2 = "tick (count_episode_eligible c1)"
    let ?p = "case Path episode of None \<Rightarrow> ''unknown'' | Some p \<Rightarrow> p"
    have m2: "mapper ?c2 = mapper c" by (simp add: c1 tick_def count_defs)
    obtain r2 m where res: "find_sonarr_episode_by_path w (mapper c) ?p None = (r2, m)"
      by (cases "find_sonarr_episode_by_path w (mapper c) ?p None")
    with assms lp g r1 True m2 obtain found where r2: "r2 = Inr found"
      by (cases r2) (auto simp: process_episode_def Let_def)
    note a1 = find_sonarr_episode_by_path_answered[OF res[unfolded r2]]
    from assms lp g r1 True m2 res r2
    have "mapper c' = m \<or> (\<exists>fid. delete_found_episode w (?c2\<lparr>mapper := m\<rparr>) fid = (Inr u, c'))"
      by (auto simp: process_episode_def Let_def count_defs split: option.splits if_splits)
    then show ?thesis
    proof
      assume "mapper c' = m"
      with a1 show ?thesis by simp
    next
      assume "\<exists>fid. delete_found_episode w (?c2\<lparr>mapper := m\<rparr>) fid = (Inr u, c')"
      then obtain fid where "delete_found_episode w (?c2\<lparr>mapper := m\<rparr>) fid = (Inr u, c')" ..
      from delete_found_episode_answered[OF this] have "all_answered w m (mapper c')" by simp
      with a1 show ?thesis by (rule all_answered_trans)
    qed
  qed
qed

lemma process_movies_answered:
  "process_movies w c movies = (Inr u, c') \<Longrightarrow> all_answered w (mapper c) (mapper c')"
proof (induction movies arbitrary: c)
  case Nil
  then show ?case by (auto intro: all_answered_refl)
next
  case (Cons movie rest)
  obtain r1 c1 where s: "process_movie w c movie = (r1, c1)"
    by (cases "process_movie w c movie")
  with Cons.prems obtain u1 where r1: "r1 = Inr u1" by (cases r1) auto
  with Cons.prems s have "process_movies w c1 rest = (Inr u, c')" by simp
  from all_answered_trans[OF process_movie_answered[OF s[unfolded r1]] Cons.IH[OF this]]
  show ?case .
qed

lemma process_episodes_answered:
  "process_episodes w c episodes = (Inr u, c') \<Longrightarrow> all_answered w (mapper c) (mapper c')"
proof (induction episodes arbitrary: c)
  case Nil
  then show ?case by (auto intro: all_answered_refl)
next
  case (Cons episode rest)
  obtain r1 c1 where s: "process_episode w c episode = (r1, c1)"
    by (cases "process_episode w c episode")
  with Cons.prems obtain u1 where r1: "r1 = Inr u1" by (cases r1) auto
  with Cons.prems s have "process_episodes w c1 rest = (Inr u, c')" by simp
  from all_answered_trans[OF process_episode_answered[OF s[unfolded r1]] Cons.IH[OF this]]
  show ?case .
qed

lemma process_series_answered:
  "process_series w c groups = (Inr u, c') \<Longrightarrow> all_answered w (mapper c) (mapper c')"
proof (induction groups arbitrary: c)
  case Nil
  then show ?case by (auto intro: all_answered_refl)
next
  case (Cons g rest)
  obtain name episodes where g: "g = (name, episodes)" by (cases g)
  obtain r1 c1 where s: "process_episodes w c episodes = (r1, c1)"
    by (cases "process_episodes w c episodes")
  with Cons.prems g obtain u1 where r1: "r1 = Inr u1" by (cases r1) auto
  with Cons.prems s g have "process_series w c1 rest = (Inr u, c')" by simp
  from all_answered_trans[OF process_episodes_answered[OF s[unfolded r1]] Cons.IH[OF this]]
  show ?case .
qed

lemma cleanup_movies_answered:
  assumes "cleanup_movies w c = (Inr u, c')"
  shows "all_answered w (mapper c) (mapper c')"
proof -
  obtain r1 m1 where g: "get_jellyfin_watched_movies w (mapper c) (primary_user_id c) = (r1, m1)"
    by (cases "get_jellyfin_watched_movies w (mapper c) (primary_user_id c)")
  with assms obtain watched where r1: "r1 = Inr watched"
    by (cases r1) (auto simp: cleanup_movies_def)
  let ?c0 = "c\<lparr>mapper := m1, stats := (stats c)\<lparr>movies_watched := length watched\<rparr>\<rparr>"
  from assms g r1 have "process_movies w ?c0 watched = (Inr u, c')"
    by (simp add: cleanup_movies_def)
  from process_movies_answered[OF this] have "all_answered w m1 (mapper c')" by simp
  with get_jellyfin_watched_movies_answered[OF g[unfolded r1]] show ?thesis
    by (rule all_answered_trans)
qed

lemma cleanup_episodes_answered:
  assumes "cleanup_episodes w c = (Inr u, c')"
  shows "all_answered w (mapper c) (mapper c')"
proof -
  obtain r1 m1 where g: "get_jellyfin_watched_episodes w (mapper c) (primary_user_id c) = (r1, m1)"
    by (cases "get_jellyfin_watched_episodes w (mapper c) (primary_user_id c)")
  with assms obtain watched where r1: "r1 = Inr watched"
    by (cases r1) (auto simp: cleanup_episodes_def)
  let ?c0 = "c\<lparr>mapper := m1, stats := (stats c)\<lparr>episodes_watched := length watched\<rparr>\<rparr>"
  from assms g r1 have "process_series w ?c0 (group_by_series [] watched) = (Inr u, c')"
    by (simp add: cleanup_episodes_def)
  from process_series_answered[OF this] have "all_answered w m1 (mapper c')" by simp
  with get_jellyfin_watched_episodes_answered[OF g[unfolded r1]] show ?thesis
    by (rule all_answered_trans)
qed

lemma run_answered:
  assumes "run w c = (Inr st, c')"
  shows "all_answered w (mapper c) (mapper c')"
proof -
  obtain r1 c1 where m: "cleanup_movies w c = (r1, c1)" by (cases "cleanup_movies w c")
  with assms obtain u1 where r1: "r1 = Inr u1" by (cases r1) (auto simp: run_def)
  obtain r2 c2 where e: "cleanup_episodes w c1 = (r2, c2)" by (cases "cleanup_episodes w c1")
  with assms m r1 obtain u2 where r2: "r2 = Inr u2" by (cases r2) (auto simp: run_def)
  from assms m r1 e r2 have "mapper c' = mapper c2" by (auto simp: run_def print_summary_def)
  with all_answered_trans[OF cleanup_movies_answered[OF m[unfolded r1]]
         cleanup_episodes_answered[OF e[unfolded r2]]]
  show ?thesis by simp
qed

section \<open>Grace period\<close>

text \<open>
  Claim C1. When the last-played timestamp of an item parses to the instant \<open>t\<close>, the
  grace-period check answers \<open>t < now - grace_period_days\<close> for the reading \<open>now\<close> of
  the clock it takes, a strict comparison: at \<open>t\<close> equal to the cutoff the answer is
  \<open>False\<close>. The eligible counter of either phase goes up by one exactly when the check
  answers \<open>True\<close>. An item with no recorded timestamp (\<^verbatim>\<open>None\<close> or the empty string)
  is passed over without any effect and without an error.
\<close>

theorem grace_period_eligibility:
  "(fromisoformat w (replace lp ''Z'' ''+00:00'') = Some t \<longrightarrow>
      is_past_grace_period w c lp
      = (Inr (t < utcnow w (ticks c) - grace_period_days (config c) * 86400000000), tick c)) \<and>
   (fromisoformat w (replace lp ''Z'' ''+00:00'')
      = Some (utcnow w (ticks c) - grace_period_days (config c) * 86400000000) \<longrightarrow>
      fst (is_past_grace_period w c lp) = Inr False) \<and>
   (LastPlayedDate item = Some lp \<and> lp \<noteq> [] \<and>
    fromisoformat w (replace lp ''Z'' ''+00:00'') = Some t \<longrightarrow>
      movies_eligible (stats (snd (process_movie w c item)))
        = movies_eligible (stats c)
          + (if t < utcnow w (ticks c) - grace_period_days (config c) * 86400000000
             then 1 else 0) \<and>
      episodes_eligible (stats (snd (process_episode w c item)))
        = episodes_eligible (stats c)
          + (if t < utcnow w (ticks c) - grace_period_days (config c) * 86400000000
             then 1 else 0)) \<and>
   (\<not> truthy_str (LastPlayedDate item) \<longrightarrow>
      process_movie w c item = (Inr (), c) \<and> process_episode w c item = (Inr (), c))"
proof (intro conjI impI)
  assume "fromisoformat w (replace lp ''Z'' ''+00:00'') = Some t"
  then show "is_past_grace_period w c lp
      = (Inr (t < utcnow w (ticks c) - grace_period_days (config c) * 86400000000), tick c)"
    by (simp add: is_past_grace_period_def)
next
  assume "fromisoformat w (replace lp ''Z'' ''+00:00'')
      = Some (utcnow w (ticks c) - grace_period_days (config c) * 86400000000)"
  then show "fst (is_past_grace_period w c lp) = Inr False"
    by (simp add: is_past_grace_period_def)
next
  assume a: "LastPlayedDate item = Some lp \<and> lp \<noteq> [] \<and>
    fromisoformat w (replace lp ''Z'' ''+00:00'') = Some t"
  let ?past = "t < utcnow w (ticks c) - grace_period_days (config c) * 86400000000"
  have p: "is_past_grace_period w c lp = (Inr ?past, tick c)"
    using a by (simp add: is_past_grace_period_def)
  show "movies_eligible (stats (snd (process_movie w c item)))
        = movies_eligible (stats c) + (if ?past then 1 else 0)"
  proof (cases ?past)
    case False
    with a p show ?thesis by (simp add: process_movie_def tick_def)
  next
    case True
    let ?c2 = "tick (count_movie_eligible (tick c))"
    obtain r m where res: "resolve_radarr_movie w (mapper ?c2) item = (r, m)"
      by (cases "resolve_radarr_movie w (mapper ?c2) item")
    have e: "movies_eligible (stats (snd (delete_found_movie w (?c2\<lparr>mapper := m\<rparr>) i)))
             = movies_eligible (stats c) + 1" for i
      using delete_found_movie_effect[of w "?c2\<lparr>mapper := m\<rparr>" i
              "fst (delete_found_movie w (?c2\<lparr>mapper := m\<rparr>) i)"
              "snd (delete_found_movie w (?c2\<lparr>mapper := m\<rparr>) i)"]
      by (simp add: tick_def count_defs)
    from a p True res e show ?thesis
      by (auto simp: process_movie_def Let_def tick_def count_defs
               split: sum.splits option.splits)
  qed
  show "episodes_eligible (stats (snd (process_episode w c item)))
        = episodes_eligible (stats c) + (if ?past then 1 else 0)"
  proof (cases ?past)
    case False
    with a p show ?thesis by (simp add: process_episode_def tick_def)
  next
    case True
    let ?c2 = "tick (count_episode_eligible (tick c))"
    let ?path = "case Path item of None \<Rightarrow> ''unknown'' | Some p \<Rightarrow> p"
    obtain r m where res: "find_sonarr_episode_by_path w (mapper ?c2) ?path None = (r, m)"
      by (cases "find_sonarr_episode_by_path w (mapper ?c2) ?path None")
    have e: "episodes_eligible (stats (snd (delete_found_episode w (?c2\<lparr>mapper := m\<rparr>) i)))
             = episodes_eligible (stats c) + 1" for i
      using delete_found_episode_effect[of w "?c2\<lparr>mapper := m\<rparr>" i
              "fst (delete_found_episode w (?c2\<lparr>mapper := m\<rparr>) i)"
              "snd (delete_found_episode w (?c2\<lparr>mapper := m\<rparr>) i)"]
      by (simp add: tick_def count_defs)
    from a p True res e show ?thesis
      by (auto simp: process_episode_def Let_def tick_def count_defs
               split: sum.splits option.splits)
  qed
next
  assume "\<not> truthy_str (LastPlayedDate item)"
  then show "process_movie w c item = (Inr (), c)"
    by (auto simp: process_movie_def truthy_str_def split: option.splits)
next
  assume "\<not> truthy_str (LastPlayedDate item)"
  then show "process_episode w c item = (Inr (), c)"
    by (auto simp: process_episode_def truthy_str_def split: option.splits)
qed

theorem grace_period_eligibility_witness:
  "is_past_grace_period demo_world (demo_cleanup True) ''2024-01-01T00:00:00Z''
     = (Inr True, tick (demo_cleanup True)) \<and>
   fst (is_past_grace_period demo_world (demo_cleanup True) ''2024-01-06T00:00:00Z'')
     = Inr False \<and>
   movies_eligible (stats (snd (process_movie demo_world (demo_cleanup True) matrix))) = 1 \<and>
   movies_eligible (stats (snd (process_movie demo_world (demo_cleanup True) brazil))) = 0 \<and>
   movies_eligible (stats (snd (process_movie demo_world (demo_cleanup True) dune))) = 0 \<and>
   process_movie demo_world (demo_cleanup True) tenet = (Inr (), demo_cleanup True)"
proof -
  have p1: "fromisoformat demo_world (replace ''2024-01-01T00:00:00Z'' ''Z'' ''+00:00'')
            = Some 1704067200000000"
    by code_simp
  have p6: "fromisoformat demo_world (replace ''2024-01-06T00:00:00Z'' ''Z'' ''+00:00'')
            = Some (utcnow demo_world (ticks (demo_cleanup True))
                    - grace_period_days (config (demo_cleanup True)) * 86400000000)"
    by code_simp
  have p9: "fromisoformat demo_world (replace ''2024-01-09T00:00:00Z'' ''Z'' ''+00:00'')
            = Some 1704758400000000"
    by code_simp
  have cut: "utcnow demo_world (ticks (demo_cleanup True))
             - grace_period_days (config (demo_cleanup True)) * 86400000000
             = 1704499200000000"
    by code_simp
  have l1: "LastPlayedDate matrix = Some ''2024-01-01T00:00:00Z''"
    and l6: "LastPlayedDate brazil = Some ''2024-01-06T00:00:00Z''"
    and l9: "LastPlayedDate dune = Some ''2024-01-09T00:00:00Z''"
    and l0: "\<not> truthy_str (LastPlayedDate tenet)"
    by (simp_all add: matrix_def brazil_def dune_def tenet_def truthy_str_def)
  note g1 = grace_period_eligibility[of demo_world "''2024-01-01T00:00:00Z''"
              1704067200000000 "demo_cleanup True" matrix]
  note g6 = grace_period_eligibility[of demo_world "''2024-01-06T00:00:00Z''"
              1704499200000000 "demo_cleanup True" brazil]
  note g9 = grace_period_eligibility[of demo_world "''2024-01-09T00:00:00Z''"
              1704758400000000 "demo_cleanup True" dune]
  note g0 = grace_period_eligibility[of demo_world "''''" 0 "demo_cleanup True" tenet]
  have c0: "movies_eligible (stats (demo_cleanup True)) = 0"
    by (simp add: demo_cleanup_def CleanupStats_init_def)
  from g1 p1 l1 cut c0 have a: "is_past_grace_period demo_world (demo_cleanup True) ''2024-01-01T00:00:00Z''
     = (Inr True, tick (demo_cleanup True))"
    and b: "movies_eligible (stats (snd (process_movie demo_world (demo_cleanup True) matrix))) = 1"
    by simp_all
  from g6 p6 l6 cut c0 have c: "fst (is_past_grace_period demo_world (demo_cleanup True) ''2024-01-06T00:00:00Z'')
     = Inr False"
    and d: "movies_eligible (stats (snd (process_movie demo_world (demo_cleanup True) brazil))) = 0"
    by simp_all
  from g9 p9 l9 cut c0 have e: "movies_eligible (stats (snd (process_movie demo_world (demo_cleanup True) dune))) = 0"
    by simp
  from g0 l0 have f: "process_movie demo_world (demo_cleanup True) tenet = (Inr (), demo_cleanup True)"
    by simp
  from a b c d e f show ?thesis by simp
qed

section \<open>Keep tag\<close>

lemma first_keep_tag_None:
  "first_keep_tag keep_label tags = None
   \<longleftrightarrow> (\<forall>(tag_id, label) \<in> set tags. lower label \<noteq> lower keep_label)"
  by (induction tags) (auto split: if_splits)

lemma delete_found_movie_no_keep_tag:
  assumes "radarr_keep_tag_id c = None"
  shows "movies_skipped_tag (stats (snd (delete_found_movie w c i))) = movies_skipped_tag (stats c)"
  using assms
  by (auto simp: delete_found_movie_def has_keep_tag_def count_defs
           split: prod.splits sum.splits option.splits)

text \<open>
  Claim C2. \<^verbatim>\<open>_has_keep_tag\<close> answers \<open>True\<close> exactly when a keep-tag id was resolved
  and occurs among the item's tag ids, and a movie that was found in the catalog is
  skipped for its tags, without a deletion request, exactly then.
  \<^verbatim>\<open>_get_keep_tag_id\<close>, when the tag list can be
  fetched, returns the id of the first tag of the service whose label equals the keep
  label up to case, and \<^verbatim>\<open>None\<close> exactly when the service has no such tag. With no
  keep-tag id resolved for Radarr, no movie is ever counted as skipped for its tags,
  whatever tags it carries.
\<close>

theorem keep_tag_fail_open:
  "has_keep_tag item_tags keep_tag_id = (\<exists>k. keep_tag_id = Some k \<and> k \<in> set item_tags) \<and>
   (get_keep_tag_id w cfg m service = (Inr keep_tag_id, m') \<longrightarrow>
      (\<exists>tags. dict_get (tags_cache m') (if service = ''radarr'' then ''radarr'' else ''sonarr'')
                 = Some tags \<and>
              keep_tag_id = first_keep_tag (keep_tag_label cfg) tags \<and>
              (keep_tag_id = None
               \<longleftrightarrow> (\<forall>(tag_id, label) \<in> set tags. lower label \<noteq> lower (keep_tag_label cfg))))) \<and>
   (get_all_radarr_movies w (mapper c) = (Inr movies, m1) \<and> dict_get movies mid = Some rm \<longrightarrow>
      (delete_found_movie w c mid = (Inr (), count_movie_skipped_tag (c\<lparr>mapper := m1\<rparr>))
       \<longleftrightarrow> (\<exists>k. radarr_keep_tag_id c = Some k \<and> k \<in> set (movie_tags rm)))) \<and>
   (radarr_keep_tag_id c = None \<longrightarrow>
      movies_skipped_tag (stats (snd (process_movie w c movie))) = movies_skipped_tag (stats c))"
proof (intro conjI impI)
  show "has_keep_tag item_tags keep_tag_id = (\<exists>k. keep_tag_id = Some k \<and> k \<in> set item_tags)"
    by (cases keep_tag_id) (simp_all add: has_keep_tag_def)
next
  assume a: "get_keep_tag_id w cfg m service = (Inr keep_tag_id, m')"
  let ?s = "if service = ''radarr'' then ''radarr'' else ''sonarr''"
  obtain tags where t: "(if service = ''radarr'' then get_radarr_tags w m else get_sonarr_tags w m)
                        = (Inr tags, m')"
    and k: "keep_tag_id = first_keep_tag (keep_tag_label cfg) tags"
    using a by (auto simp: get_keep_tag_id_def split: prod.splits sum.splits)
  have "dict_get (tags_cache m') ?s = Some tags"
    using t
    by (auto simp: get_radarr_tags_def get_sonarr_tags_def send_def Let_def dict_get_set_same
             split: if_splits option.splits sum.splits)
  with k show "\<exists>tags. dict_get (tags_cache m') ?s = Some tags \<and>
              keep_tag_id = first_keep_tag (keep_tag_label cfg) tags \<and>
              (keep_tag_id = None
               \<longleftrightarrow> (\<forall>(tag_id, label) \<in> set tags. lower label \<noteq> lower (keep_tag_label cfg)))"
    using first_keep_tag_None by blast
next
  assume a: "get_all_radarr_movies w (mapper c) = (Inr movies, m1) \<and> dict_get movies mid = Some rm"
  have h: "has_keep_tag (movie_tags rm) (radarr_keep_tag_id c)
           = (\<exists>k. radarr_keep_tag_id c = Some k \<and> k \<in> set (movie_tags rm))"
    by (cases "radarr_keep_tag_id c") (simp_all add: has_keep_tag_def)
  show "delete_found_movie w c mid = (Inr (), count_movie_skipped_tag (c\<lparr>mapper := m1\<rparr>))
        \<longleftrightarrow> (\<exists>k. radarr_keep_tag_id c = Some k \<and> k \<in> set (movie_tags rm))"
  proof (cases "has_keep_tag (movie_tags rm) (radarr_keep_tag_id c)")
    case True
    with a h show ?thesis by (simp add: delete_found_movie_def)
  next
    case False
    obtain r c' where d: "delete_found_movie w c mid = (r, c')"
      by (cases "delete_found_movie w c mid")
    from d a False
    have "movies_skipped_tag (stats c') = movies_skipped_tag (stats c)"
      by (auto simp: delete_found_movie_def count_defs split: prod.splits sum.splits if_splits)
    then have "c' \<noteq> count_movie_skipped_tag (c\<lparr>mapper := m1\<rparr>)"
      by (auto simp: count_defs)
    with d False h show ?thesis by simp
  qed
next
  assume a: "radarr_keep_tag_id c = None"
  have k: "radarr_keep_tag_id ((tick (count_movie_eligible (tick c)))\<lparr>mapper := m\<rparr>) = None" for m
    using a by (simp add: tick_def count_defs)
  have s: "movies_skipped_tag (stats ((tick (count_movie_eligible (tick c)))\<lparr>mapper := m\<rparr>))
           = movies_skipped_tag (stats c)" for m
    by (simp add: tick_def count_defs)
  show "movies_skipped_tag (stats (snd (process_movie w c movie))) = movies_skipped_tag (stats c)"
    using delete_found_movie_no_keep_tag[OF k] s
    by (auto simp: process_movie_def Let_def tick_def count_defs
             dest!: is_past_grace_period_effect
             split: option.splits prod.splits sum.splits)
qed

theorem keep_tag_fail_open_witness:
  "has_keep_tag [5] (Some 5) \<and>
   \<not> has_keep_tag [5, 6] None \<and>
   get_keep_tag_id demo_world (demo_config True) (mapper (demo_cleanup True)) ''radarr''
     = (Inr (Some 5), mapper (demo_cleanup True)) \<and>
   get_keep_tag_id demo_world (demo_config True) (mapper (demo_cleanup True)) ''sonarr''
     = (Inr None, mapper (demo_cleanup True)) \<and>
   dict_get (tags_cache (mapper (demo_cleanup True))) ''sonarr'' = Some [(2, ''anime'')] \<and>
   movies_skipped_tag
     (stats (snd (process_movie demo_world ((demo_cleanup True)\<lparr>radarr_keep_tag_id := None\<rparr>) heat)))
     = 0 \<and>
   delete_found_movie demo_world (demo_eligible heat) 2
     = (Inr (), count_movie_skipped_tag (demo_eligible heat)) \<and>
   delete_found_movie demo_world (demo_eligible matrix) 1
     \<noteq> (Inr (), count_movie_skipped_tag (demo_eligible matrix))"
proof -
  let ?m = "mapper (demo_cleanup True)"
  let ?c = "(demo_cleanup True)\<lparr>radarr_keep_tag_id := None\<rparr>"
  have r: "get_keep_tag_id demo_world (demo_config True) ?m ''radarr'' = (Inr (Some 5), ?m)"
    by code_simp
  have s: "get_keep_tag_id demo_world (demo_config True) ?m ''sonarr'' = (Inr None, ?m)"
    by code_simp
  have d: "dict_get (tags_cache ?m) ''sonarr'' = Some [(2, ''anime'')]"
    by code_simp
  have n: "radarr_keep_tag_id ?c = None" and z: "movies_skipped_tag (stats ?c) = 0"
    by (simp_all add: demo_cleanup_def CleanupStats_init_def)
  note t1 = keep_tag_fail_open[where item_tags = "[5]" and keep_tag_id = "Some 5"
              and w = demo_world and cfg = "demo_config True" and m = ?m
              and service = "''radarr''" and m' = ?m and c = ?c and movie = heat]
  note t2 = keep_tag_fail_open[where item_tags = "[5, 6]" and keep_tag_id = None
              and w = demo_world and cfg = "demo_config True" and m = ?m
              and service = "''sonarr''" and m' = ?m and c = ?c and movie = heat]
  have g: "get_all_radarr_movies demo_world (mapper (demo_eligible x))
             = (Inr (the (movies_cache (mapper (demo_eligible x)))), mapper (demo_eligible x))"
    if "movies_cache (mapper (demo_eligible x)) \<noteq> None" for x
    using that by (auto simp: get_all_radarr_movies_def)
  have cached: "movies_cache (mapper (demo_eligible heat)) \<noteq> None"
    "movies_cache (mapper (demo_eligible matrix)) \<noteq> None"
    by code_simp+
  have e: "dict_get (the (movies_cache (mapper (demo_eligible heat)))) 2
           = Some (demo_radarr_movies ! 1)"
    "dict_get (the (movies_cache (mapper (demo_eligible matrix)))) 1
           = Some (demo_radarr_movies ! 0)"
    by code_simp+
  have k: "radarr_keep_tag_id (demo_eligible x) = Some 5" for x
    by (simp add: demo_eligible_def tick_def count_defs demo_cleanup_def)
  have tg: "movie_tags (demo_radarr_movies ! 1) = [5]" "movie_tags (demo_radarr_movies ! 0) = []"
    by (simp_all add: demo_radarr_movies_def)
  note t3 = keep_tag_fail_open[where w = demo_world and c = "demo_eligible heat"
              and movies = "the (movies_cache (mapper (demo_eligible heat)))"
              and ?m1.0 = "mapper (demo_eligible heat)" and mid = 2
              and rm = "demo_radarr_movies ! 1"]
  note t4 = keep_tag_fail_open[where w = demo_world and c = "demo_eligible matrix"
              and movies = "the (movies_cache (mapper (demo_eligible matrix)))"
              and ?m1.0 = "mapper (demo_eligible matrix)" and mid = 1
              and rm = "demo_radarr_movies ! 0"]
  from t3 g[OF cached(1)] e(1) k tg
  have a1: "delete_found_movie demo_world (demo_eligible heat) 2
              = (Inr (), count_movie_skipped_tag (demo_eligible heat))"
    by simp
  from t4 g[OF cached(2)] e(2) k tg
  have a2: "delete_found_movie demo_world (demo_eligible matrix) 1
              \<noteq> (Inr (), count_movie_skipped_tag (demo_eligible matrix))"
    by simp
  from t1 t2 r s d n z a1 a2 show ?thesis by simp
qed

section \<open>Decision pipeline\<close>



section \<open>Dry run\<close>

text \<open>
  Claim C4. With \<^verbatim>\<open>dry_run\<close> set, each of the three delete operations (one movie, one
  episode file, a batch of episode files) returns \<^verbatim>\<open>True\<close> and leaves the mapper as it
  was: no request is added to \<open>sent\<close>, so no mutating call is issued, and every cache
  is unchanged.
\<close>

theorem dry_run_deletes_nothing:
  "delete_radarr_movie w m mid True = (Inr True, m) \<and>
   delete_sonarr_episode_file w m file_id True = (Inr True, m) \<and>
   bulk_delete_sonarr_episode_files w m file_ids True = (Inr True, m)"
  by (simp add: delete_radarr_movie_def delete_sonarr_episode_file_def
        bulk_delete_sonarr_episode_files_def)

section \<open>Movie resolution\<close>

text \<open>
  Claim C5. The movie of a watched item is resolved by two matchers in order. The path
  match comes first: it scans the cached catalog, which it fetches if need be, for an
  entry whose normalised file path equals the normalised path of the item, and an error
  of that fetch ends the resolution. A result of the path match is accepted as it is, and
  the TMDb id of the item plays no part. Only when the path match gives no result (the
  test is \<^verbatim>\<open>not radarr_movie_id\<close>: \<^verbatim>\<open>None\<close>, or 0, which no catalog entry has as its
  identifier) and the item carries a TMDb id is the TMDb match tried, on the same cache,
  and its answer is the result; with no result and no TMDb id the resolution gives no
  result.
\<close>

theorem movie_resolution_chain:
  "(movies_cache m = Some movies \<longrightarrow>
      find_radarr_movie_by_path w m path
      = (Inr (match_movie_path m (normalize_path path (jellyfin_movie_prefix m)) movies), m) \<and>
      find_radarr_movie_by_tmdb w m tmdb_id = (Inr (match_movie_tmdb tmdb_id movies), m)) \<and>
   (find_radarr_movie_by_path w m (case Path movie of None \<Rightarrow> ''unknown'' | Some p \<Rightarrow> p)
      = (Inl e, m1) \<longrightarrow>
      resolve_radarr_movie w m movie = (Inl e, m1)) \<and>
   (find_radarr_movie_by_path w m (case Path movie of None \<Rightarrow> ''unknown'' | Some p \<Rightarrow> p)
      = (Inr found, m1) \<and> truthy_id found \<longrightarrow>
      resolve_radarr_movie w m movie = (Inr found, m1)) \<and>
   (find_radarr_movie_by_path w m (case Path movie of None \<Rightarrow> ''unknown'' | Some p \<Rightarrow> p)
      = (Inr (Some mid), m1) \<and> mid \<noteq> 0 \<longrightarrow>
      resolve_radarr_movie w m movie = (Inr (Some mid), m1)) \<and>
   (find_radarr_movie_by_path w m (case Path movie of None \<Rightarrow> ''unknown'' | Some p \<Rightarrow> p)
      = (Inr found, m1) \<and> \<not> truthy_id found \<and> Tmdb movie = Some tmdb_id \<and> tmdb_id \<noteq> [] \<longrightarrow>
      resolve_radarr_movie w m movie = find_radarr_movie_by_tmdb w m1 tmdb_id) \<and>
   (find_radarr_movie_by_path w m (case Path movie of None \<Rightarrow> ''unknown'' | Some p \<Rightarrow> p)
      = (Inr found, m1) \<and> \<not> truthy_id found \<and> \<not> truthy_str (Tmdb movie) \<longrightarrow>
      resolve_radarr_movie w m movie = (Inr found, m1)) \<and>
   (find_radarr_movie_by_path w m (case Path movie of None \<Rightarrow> ''unknown'' | Some p \<Rightarrow> p)
      = (Inr None, m1) \<and> \<not> truthy_str (Tmdb movie) \<longrightarrow>
      resolve_radarr_movie w m movie = (Inr None, m1))"
  by (auto simp: resolve_radarr_movie_def find_radarr_movie_by_path_def
        find_radarr_movie_by_tmdb_def get_all_radarr_movies_def truthy_id_def truthy_str_def
        split: option.splits)

theorem movie_resolution_chain_witness:
  "find_radarr_movie_by_path demo_world demo_cached
     ''/media/movies/The Matrix (1999)/The Matrix (1999) REMUX-2160p.mkv''
     = (Inr (Some 1), demo_cached) \<and>
   resolve_radarr_movie demo_world demo_cached matrix = (Inr (Some 1), demo_cached) \<and>
   resolve_radarr_movie demo_world demo_cached (matrix\<lparr>Tmdb := Some ''949''\<rparr>)
     = (Inr (Some 1), demo_cached) \<and>
   find_radarr_movie_by_tmdb demo_world demo_cached ''949'' = (Inr (Some 2), demo_cached) \<and>
   find_radarr_movie_by_path demo_world demo_cached ''/media/movies/Alien/Alien (1979).mkv''
     = (Inr None, demo_cached) \<and>
   resolve_radarr_movie demo_world demo_cached alien = (Inr (Some 3), demo_cached) \<and>
   resolve_radarr_movie demo_world demo_cached up = (Inr None, demo_cached) \<and>
   resolve_radarr_movie radarr_down (mapper (demo_cleanup True)) matrix
     = (Inl TransportError,
        (mapper (demo_cleanup True))
          \<lparr>sent := sent (mapper (demo_cleanup True)) @ [GET_radarr_movie]\<rparr>)"
proof -
  let ?cache = "[(1, demo_radarr_movies ! 0), (2, demo_radarr_movies ! 1), (3, demo_radarr_movies ! 2)]"
  let ?pm = "''/media/movies/The Matrix (1999)/The Matrix (1999) REMUX-2160p.mkv''"
  let ?pa = "''/media/movies/Alien/Alien (1979).mkv''"
  let ?pu = "''/media/movies/Up (2009)/Up.mkv''"
  let ?m0 = "mapper (demo_cleanup True)"
  have c: "movies_cache demo_cached = Some ?cache"
    by code_simp
  have km: "match_movie_path demo_cached (normalize_path ?pm (jellyfin_movie_prefix demo_cached)) ?cache
            = Some 1"
    and ka: "match_movie_path demo_cached (normalize_path ?pa (jellyfin_movie_prefix demo_cached)) ?cache
            = None"
    and ku: "match_movie_path demo_cached (normalize_path ?pu (jellyfin_movie_prefix demo_cached)) ?cache
            = None"
    by code_simp+
  have t9: "match_movie_tmdb ''949'' ?cache = Some 2"
    and t3: "match_movie_tmdb ''348'' ?cache = Some 3"
    by code_simp+
  have items: "Path matrix = Some ?pm" "Path alien = Some ?pa" "Path up = Some ?pu"
    "Tmdb alien = Some ''348''" "\<not> truthy_str (Tmdb up)"
    "Path (matrix\<lparr>Tmdb := Some ''949''\<rparr>) = Some ?pm"
    by (simp_all add: matrix_def alien_def up_def truthy_str_def)
  note f1 = movie_resolution_chain[where m = demo_cached and movies = ?cache and w = demo_world
              and path = ?pm and tmdb_id = "''949''"]
  note f2 = movie_resolution_chain[where m = demo_cached and movies = ?cache and w = demo_world
              and path = ?pa and tmdb_id = "''348''"]
  note f3 = movie_resolution_chain[where m = demo_cached and movies = ?cache and w = demo_world
              and path = ?pu]
  from f1 c km t9
  have a1: "find_radarr_movie_by_path demo_world demo_cached ?pm = (Inr (Some 1), demo_cached)"
    and a4: "find_radarr_movie_by_tmdb demo_world demo_cached ''949'' = (Inr (Some 2), demo_cached)"
    by simp_all
  from f2 c ka t3
  have a5: "find_radarr_movie_by_path demo_world demo_cached ?pa = (Inr None, demo_cached)"
    and a5': "find_radarr_movie_by_tmdb demo_world demo_cached ''348'' = (Inr (Some 3), demo_cached)"
    by simp_all
  from f3 c ku
  have a7': "find_radarr_movie_by_path demo_world demo_cached ?pu = (Inr None, demo_cached)"
    by simp
  note r1 = movie_resolution_chain[where w = demo_world and m = demo_cached and movie = matrix
              and found = "Some 1" and ?m1.0 = demo_cached]
  note r2 = movie_resolution_chain[where w = demo_world and m = demo_cached
              and movie = "matrix\<lparr>Tmdb := Some ''949''\<rparr>"
              and found = "Some 1" and ?m1.0 = demo_cached]
  note r3 = movie_resolution_chain[where w = demo_world and m = demo_cached and movie = alien
              and found = None and ?m1.0 = demo_cached and tmdb_id = "''348''"]
  note r4 = movie_resolution_chain[where w = demo_world and m = demo_cached and movie = up
              and found = None and ?m1.0 = demo_cached]
  from r1 a1 items have a2: "resolve_radarr_movie demo_world demo_cached matrix
                             = (Inr (Some 1), demo_cached)"
    by (simp add: truthy_id_def)
  from r2 a1 items have a3: "resolve_radarr_movie demo_world demo_cached (matrix\<lparr>Tmdb := Some ''949''\<rparr>)
                             = (Inr (Some 1), demo_cached)"
    by (simp add: truthy_id_def)
  from r3 a5 a5' items have a6: "resolve_radarr_movie demo_world demo_cached alien
                                 = (Inr (Some 3), demo_cached)"
    by (simp add: truthy_id_def)
  from r4 a7' items have a7: "resolve_radarr_movie demo_world demo_cached up = (Inr None, demo_cached)"
    by (simp add: truthy_id_def)
  have d: "find_radarr_movie_by_path radarr_down ?m0 ?pm
           = (Inl TransportError, ?m0\<lparr>sent := sent ?m0 @ [GET_radarr_movie]\<rparr>)"
    by code_simp
  note r5 = movie_resolution_chain[where w = radarr_down and m = ?m0 and movie = matrix
              and e = TransportError and ?m1.0 = "?m0\<lparr>sent := sent ?m0 @ [GET_radarr_movie]\<rparr>"]
  from r5 d items have a8: "resolve_radarr_movie radarr_down ?m0 matrix
     = (Inl TransportError, ?m0\<lparr>sent := sent ?m0 @ [GET_radarr_movie]\<rparr>)"
    by simp
  from a1 a2 a3 a4 a5 a6 a7 a8 show ?thesis by simp
qed

section \<open>Path normalisation\<close>

text \<open>
  Claim C6 says that the normaliser strips the mount prefix and does nothing when the
  path does not start with it, as the docstring of \<^verbatim>\<open>_normalize_path\<close> does
  (\<^verbatim>\<open>Remove mount prefix\<close>, parameter \<^verbatim>\<open>prefix_to_remove\<close>). The code calls
  \<^verbatim>\<open>str.replace\<close>, which deletes the text of the prefix wherever it occurs. A path
  that holds \<^verbatim>\<open>/movies/\<close> in the middle only loses it there, and a path that holds it
  twice loses both.
\<close>

theorem normalize_path_removes_every_occurrence:
  "normalize_path ''/data/movies/Film/film.mkv'' ''/movies/'' = ''dataFilm/film.mkv'' \<and>
   normalize_path ''/movies/Inside/movies/clip.mkv'' ''/movies/'' = ''Insideclip.mkv''"
  by code_simp

text \<open>The example of the claim does hold: both paths give the same key.\<close>

lemma normalize_path_matrix:
  "normalize_path ''/media/movies/The Matrix (1999)/The Matrix (1999) REMUX-2160p.mkv''
     ''/media/movies/''
   = ''The Matrix (1999)/The Matrix (1999) REMUX-2160p.mkv'' \<and>
   normalize_path ''/movies/The Matrix (1999)/The Matrix (1999) REMUX-2160p.mkv'' ''/movies/''
   = ''The Matrix (1999)/The Matrix (1999) REMUX-2160p.mkv''"
  by code_simp

text \<open>
  Claim C7, as amended. Normalising a second time with the empty prefix gives the same
  string exactly when percent-decoding leaves the result of the first normalisation
  unchanged, that is, when that result holds no \<^verbatim>\<open>%\<close> followed by two hexadecimal
  digits; in particular whenever it holds no \<^verbatim>\<open>%\<close> at all.
\<close>

theorem normalize_idempotent_iff:
  "normalize_path (normalize_path path pre) [] = normalize_path path pre
   \<longleftrightarrow> unquote (normalize_path path pre) = normalize_path path pre"
proof
  let ?r = "normalize_path path pre"
  assume a: "normalize_path ?r [] = ?r"
  have "length ?r = length (strip (unquote ?r) ''/'')"
    using a by (simp add: normalize_again)
  also have "\<dots> \<le> length (unquote ?r)" by (rule strip_length)
  finally have "length (unquote ?r) = length ?r"
    using unquote_length[of ?r] by simp
  then show "unquote ?r = ?r" by (rule unquote_length_eq)
next
  let ?r = "normalize_path path pre"
  assume a: "unquote ?r = ?r"
  have "strip ?r ''/'' = ?r"
    by (simp add: normalize_path_def strip_idem)
  with a show "normalize_path ?r [] = ?r"
    by (simp add: normalize_again)
qed

theorem normalize_idempotent_iff_witness:
  "normalize_path
     (normalize_path ''/media/movies/The Matrix (1999)/The Matrix (1999) REMUX-2160p.mkv''
        ''/media/movies/'') []
   = ''The Matrix (1999)/The Matrix (1999) REMUX-2160p.mkv''"
proof -
  let ?p = "''/media/movies/The Matrix (1999)/The Matrix (1999) REMUX-2160p.mkv''"
  have n: "normalize_path ?p ''/media/movies/''
           = ''The Matrix (1999)/The Matrix (1999) REMUX-2160p.mkv''"
    by code_simp
  have u: "unquote (normalize_path ?p ''/media/movies/'') = normalize_path ?p ''/media/movies/''"
    unfolding n by code_simp
  from normalize_idempotent_iff[of ?p "''/media/movies/''"] u n show ?thesis by simp
qed

text \<open>
  It is not idempotent on every path: a percent sign that is itself escaped is decoded
  once by each application.
\<close>

theorem normalize_not_idempotent:
  "normalize_path ''/movies/Film%2520Name/film.mkv'' ''/movies/'' = ''Film%20Name/film.mkv'' \<and>
   normalize_path (normalize_path ''/movies/Film%2520Name/film.mkv'' ''/movies/'') []
     = ''Film Name/film.mkv'' \<and>
   normalize_path (normalize_path ''/movies/Film%2520Name/film.mkv'' ''/movies/'') []
     \<noteq> normalize_path ''/movies/Film%2520Name/film.mkv'' ''/movies/''"
  by code_simp

section \<open>Caches\<close>

lemma dict_del_absent: "dict_get d k = None \<Longrightarrow> dict_del d k = d"
  by (induction d) (auto simp: dict_get_def dict_del_def split: if_splits)

lemma dict_get_del_same: "dict_get (dict_del d k) k = None"
  by (induction d) (auto simp: dict_get_def dict_del_def)

lemma dict_get_del_other: "k' \<noteq> k \<Longrightarrow> dict_get (dict_del d k) k' = dict_get d k'"
  by (induction d) (auto simp: dict_get_def dict_del_def)

text \<open>
  Claim C8. A cache that is populated is returned as it is, with no request: the movie
  cache, the series cache, the episode list of a series, and the tag list of either
  service. In real mode, a movie deletion answered with status 200 removes from the
  movie cache the entry of the deleted id and nothing else, and touches no other cache;
  an episode-file deletion answered with 200, single or bulk, empties the episode cache;
  a deletion that raises or is answered with another status leaves every cache as it
  was (the request is recorded in \<open>sent\<close>).
\<close>

theorem cache_population_and_invalidation:
  "(movies_cache m = Some movies \<longrightarrow> get_all_radarr_movies w m = (Inr movies, m)) \<and>
   (series_cache m = Some series \<longrightarrow> get_all_sonarr_series w m = (Inr series, m)) \<and>
   (dict_get (episodes_cache m) sid = Some episodes \<longrightarrow>
      get_sonarr_episodes w m sid = (Inr episodes, m)) \<and>
   (dict_get (tags_cache m) ''radarr'' = Some tags \<longrightarrow> get_radarr_tags w m = (Inr tags, m)) \<and>
   (dict_get (tags_cache m) ''sonarr'' = Some tags \<longrightarrow> get_sonarr_tags w m = (Inr tags, m)) \<and>
   (radarr_movie_DELETE w (sent m) mid = Inr 200 \<longrightarrow>
      delete_radarr_movie w m mid False
      = (Inr True,
         m\<lparr>movies_cache := map_option (filter (\<lambda>(k, v). k \<noteq> mid)) (movies_cache m),
           sent := sent m @ [DELETE_radarr_movie mid]\<rparr>)) \<and>
   (sonarr_episodefile_DELETE w (sent m) file_id = Inr 200 \<longrightarrow>
      delete_sonarr_episode_file w m file_id False
      = (Inr True,
         m\<lparr>episodes_cache := [], sent := sent m @ [DELETE_sonarr_episodefile file_id]\<rparr>)) \<and>
   (sonarr_episodefile_bulk_DELETE w (sent m) file_ids = Inr 200 \<longrightarrow>
      bulk_delete_sonarr_episode_files w m file_ids False
      = (Inr True,
         m\<lparr>episodes_cache := [], sent := sent m @ [DELETE_sonarr_episodefile_bulk file_ids]\<rparr>)) \<and>
   (radarr_movie_DELETE w (sent m) mid = Inl e \<longrightarrow>
      delete_radarr_movie w m mid False
      = (Inl e, m\<lparr>sent := sent m @ [DELETE_radarr_movie mid]\<rparr>)) \<and>
   (sonarr_episodefile_DELETE w (sent m) file_id = Inl e \<longrightarrow>
      delete_sonarr_episode_file w m file_id False
      = (Inl e, m\<lparr>sent := sent m @ [DELETE_sonarr_episodefile file_id]\<rparr>)) \<and>
   (sonarr_episodefile_bulk_DELETE w (sent m) file_ids = Inl e \<longrightarrow>
      bulk_delete_sonarr_episode_files w m file_ids False
      = (Inl e, m\<lparr>sent := sent m @ [DELETE_sonarr_episodefile_bulk file_ids]\<rparr>)) \<and>
   (radarr_movie_DELETE w (sent m) mid = Inr status \<and> status \<noteq> 200 \<longrightarrow>
      delete_radarr_movie w m mid False
      = (Inr False, m\<lparr>sent := sent m @ [DELETE_radarr_movie mid]\<rparr>)) \<and>
   (sonarr_episodefile_DELETE w (sent m) file_id = Inr status \<and> status \<noteq> 200 \<longrightarrow>
      delete_sonarr_episode_file w m file_id False
      = (Inr False, m\<lparr>sent := sent m @ [DELETE_sonarr_episodefile file_id]\<rparr>)) \<and>
   (sonarr_episodefile_bulk_DELETE w (sent m) file_ids = Inr status \<and> status \<noteq> 200 \<longrightarrow>
      bulk_delete_sonarr_episode_files w m file_ids False
      = (Inr False, m\<lparr>sent := sent m @ [DELETE_sonarr_episodefile_bulk file_ids]\<rparr>))"
proof (intro conjI impI)
  assume a: "radarr_movie_DELETE w (sent m) mid = Inr 200"
  show "delete_radarr_movie w m mid False
      = (Inr True,
         m\<lparr>movies_cache := map_option (filter (\<lambda>(k, v). k \<noteq> mid)) (movies_cache m),
           sent := sent m @ [DELETE_radarr_movie mid]\<rparr>)"
  proof (cases "movies_cache m")
    case None
    with a show ?thesis by (simp add: delete_radarr_movie_def send_def)
  next
    case (Some cache)
    show ?thesis
    proof (cases "cache \<noteq> [] \<and> dict_get cache mid \<noteq> None")
      case True
      with a Some show ?thesis
        by (simp add: delete_radarr_movie_def send_def dict_del_def)
    next
      case False
      then have "dict_get cache mid = None" by (cases cache) (auto simp: dict_get_def)
      then have "filter (\<lambda>(k, v). k \<noteq> mid) cache = cache"
        using dict_del_absent[of cache mid] by (simp add: dict_del_def)
      with a Some False show ?thesis
        by (auto simp: delete_radarr_movie_def send_def)
    qed
  qed
qed (simp_all add: get_all_radarr_movies_def get_all_sonarr_series_def get_sonarr_episodes_def
       get_radarr_tags_def get_sonarr_tags_def delete_sonarr_episode_file_def
       bulk_delete_sonarr_episode_files_def delete_radarr_movie_def send_def)


theorem cache_population_and_invalidation_witness:
  "get_all_radarr_movies radarr_down demo_cached
     = (Inr [(1, demo_radarr_movies ! 0), (2, demo_radarr_movies ! 1), (3, demo_radarr_movies ! 2)],
        demo_cached) \<and>
   movies_cache (snd (delete_radarr_movie demo_world demo_cached 2 False))
     = Some [(1, demo_radarr_movies ! 0), (3, demo_radarr_movies ! 2)] \<and>
   episodes_cache demo_cached = [(10, [demo_episodes ! 0])] \<and>
   episodes_cache (snd (delete_radarr_movie demo_world demo_cached 2 False))
     = [(10, [demo_episodes ! 0])] \<and>
   delete_radarr_movie demo_world demo_cached 3 False
     = (Inr False, demo_cached\<lparr>sent := sent demo_cached @ [DELETE_radarr_movie 3]\<rparr>) \<and>
   episodes_cache (snd (delete_sonarr_episode_file demo_world demo_cached 100 False)) = [] \<and>
   episodes_cache (snd (bulk_delete_sonarr_episode_files demo_world demo_cached [100] False)) = [] \<and>
   get_all_sonarr_series sonarr_down demo_cached
     = (Inr [(10, \<lparr>series_id = 10\<rparr>)], demo_cached) \<and>
   get_sonarr_episodes sonarr_down demo_cached 10 = (Inr [demo_episodes ! 0], demo_cached) \<and>
   get_radarr_tags radarr_down demo_cached = (Inr [(5, ''Keep''), (6, ''4k'')], demo_cached) \<and>
   get_sonarr_tags sonarr_down demo_cached = (Inr [(2, ''anime'')], demo_cached) \<and>
   delete_radarr_movie deletes_down demo_cached 1 False
     = (Inl TransportError, demo_cached\<lparr>sent := sent demo_cached @ [DELETE_radarr_movie 1]\<rparr>)"
proof -
  let ?cache = "[(1, demo_radarr_movies ! 0), (2, demo_radarr_movies ! 1), (3, demo_radarr_movies ! 2)]"
  have c: "movies_cache demo_cached = Some ?cache"
    by code_simp
  have e: "episodes_cache demo_cached = [(10, [demo_episodes ! 0])]"
    by code_simp
  have d2: "radarr_movie_DELETE demo_world (sent demo_cached) 2 = Inr 200"
    and d3: "radarr_movie_DELETE demo_world (sent demo_cached) 3 = Inr 500 \<and> (500::nat) \<noteq> 200"
    and s1: "sonarr_episodefile_DELETE demo_world (sent demo_cached) 100 = Inr 200"
    and s2: "sonarr_episodefile_bulk_DELETE demo_world (sent demo_cached) [100] = Inr 200"
    by (simp_all add: demo_world_def)
  note t1 = cache_population_and_invalidation[of demo_cached ?cache radarr_down]
  note t2 = cache_population_and_invalidation[of demo_cached _ demo_world _ _ _ _ 2 100 "[100]"]
  note t3 = cache_population_and_invalidation[of demo_cached _ demo_world _ _ _ _ 3 _ _ _ 500]
  from t1 c have a1: "get_all_radarr_movies radarr_down demo_cached = (Inr ?cache, demo_cached)"
    by simp
  from t2 d2 c have a2: "movies_cache (snd (delete_radarr_movie demo_world demo_cached 2 False))
     = Some [(1, demo_radarr_movies ! 0), (3, demo_radarr_movies ! 2)]"
    and a3: "episodes_cache (snd (delete_radarr_movie demo_world demo_cached 2 False))
     = episodes_cache demo_cached"
    by simp_all
  from t3 d3 have a4: "delete_radarr_movie demo_world demo_cached 3 False
     = (Inr False, demo_cached\<lparr>sent := sent demo_cached @ [DELETE_radarr_movie 3]\<rparr>)"
    by simp
  from t2 s1 s2 have a5: "episodes_cache (snd (delete_sonarr_episode_file demo_world demo_cached 100 False)) = []"
    and a6: "episodes_cache (snd (bulk_delete_sonarr_episode_files demo_world demo_cached [100] False)) = []"
    by simp_all
  have sc: "series_cache demo_cached = Some [(10, \<lparr>series_id = 10\<rparr>)]"
    and ec: "dict_get (episodes_cache demo_cached) 10 = Some [demo_episodes ! 0]"
    and rt: "dict_get (tags_cache demo_cached) ''radarr'' = Some [(5, ''Keep''), (6, ''4k'')]"
    and st: "dict_get (tags_cache demo_cached) ''sonarr'' = Some [(2, ''anime'')]"
    by code_simp+
  have dd: "radarr_movie_DELETE deletes_down (sent demo_cached) 1 = Inl TransportError"
    by (simp add: deletes_down_def)
  note t4 = cache_population_and_invalidation[where m = demo_cached and w = sonarr_down
              and series = "[(10, \<lparr>series_id = 10\<rparr>)]" and sid = 10
              and episodes = "[demo_episodes ! 0]" and tags = "[(2, ''anime'')]"]
  note t5 = cache_population_and_invalidation[where m = demo_cached and w = radarr_down
              and tags = "[(5, ''Keep''), (6, ''4k'')]"]
  note t6 = cache_population_and_invalidation[where m = demo_cached and w = deletes_down
              and mid = 1 and e = TransportError]
  from t4 sc ec st
  have a7: "get_all_sonarr_series sonarr_down demo_cached
              = (Inr [(10, \<lparr>series_id = 10\<rparr>)], demo_cached)"
    and a8: "get_sonarr_episodes sonarr_down demo_cached 10 = (Inr [demo_episodes ! 0], demo_cached)"
    and a9: "get_sonarr_tags sonarr_down demo_cached = (Inr [(2, ''anime'')], demo_cached)"
    by simp_all
  from t5 rt
  have a10: "get_radarr_tags radarr_down demo_cached = (Inr [(5, ''Keep''), (6, ''4k'')], demo_cached)"
    by simp
  from t6 dd
  have a11: "delete_radarr_movie deletes_down demo_cached 1 False
     = (Inl TransportError, demo_cached\<lparr>sent := sent demo_cached @ [DELETE_radarr_movie 1]\<rparr>)"
    by simp
  from a1 a2 a3 a4 a5 a6 a7 a8 a9 a10 a11 e show ?thesis by simp
qed

section \<open>Errors\<close>

text \<open>The loops stop at the first item that raises.\<close>

lemma process_movies_stops_at_error:
  "process_movies w c xs = (Inr u, c1) \<Longrightarrow> process_movie w c1 x = (Inl e, c2) \<Longrightarrow>
     process_movies w c (xs @ x # rest) = (Inl e, c2)"
  by (induction xs arbitrary: c) (auto split: prod.splits sum.splits)

lemma process_episodes_stops_at_error:
  "process_episodes w c xs = (Inr u, c1) \<Longrightarrow> process_episode w c1 x = (Inl e, c2) \<Longrightarrow>
     process_episodes w c (xs @ x # rest) = (Inl e, c2)"
  by (induction xs arbitrary: c) (auto split: prod.splits sum.splits)

text \<open>\<^verbatim>\<open>run\<close> prints the final statistics, however it ends.\<close>

lemma run_prints_summary:
  "summaries (snd (run w c)) = summaries c @ [stats (snd (run w c))]"
proof -
  obtain r1 c1 where m: "cleanup_movies w c = (r1, c1)" by (cases "cleanup_movies w c")
  obtain r2 c2 where e: "cleanup_episodes w c1 = (r2, c2)" by (cases "cleanup_episodes w c1")
  from cleanup_movies_effect[OF m] cleanup_episodes_effect[OF e] m e show ?thesis
    by (auto simp: run_def print_summary_def split: sum.splits)
qed

text \<open>
  Claim C9. A run returns normally only if every request it sent was answered, so a
  failure of any collaborator call makes it raise. The error that ends a phase is the
  error \<^verbatim>\<open>run\<close> raises: the remaining phase is not started, and the summary printed
  on the way out holds the statistics collected up to the failure. A failing fetch of
  the watched items fails its phase, and an item that raises ends its loop with that
  error. A path lookup raises exactly when its catalog has to be fetched and the fetch
  fails; when the catalog is at hand and nothing matches, it returns \<^verbatim>\<open>None\<close>, a
  normal value, and after an item that did not raise the loop goes on with the next
  one.
\<close>

theorem transport_errors_propagate:
  "(run w c = (Inr st, c') \<longrightarrow> all_answered w (mapper c) (mapper c')) \<and>
   (cleanup_movies w c = (Inl e, c1) \<longrightarrow>
      run w c = (Inl e, c1\<lparr>summaries := summaries c1 @ [stats c1]\<rparr>)) \<and>
   (cleanup_movies w c = (Inr u, c1) \<and> cleanup_episodes w c1 = (Inl e, c2) \<longrightarrow>
      run w c = (Inl e, c2\<lparr>summaries := summaries c2 @ [stats c2]\<rparr>)) \<and>
   summaries (snd (run w c)) = summaries c @ [stats (snd (run w c))] \<and>
   (jellyfin_watched_movies w (sent (mapper c)) (primary_user_id c) = Inl e \<longrightarrow>
      fst (cleanup_movies w c) = Inl e) \<and>
   (jellyfin_watched_episodes w (sent (mapper c)) (primary_user_id c) = Inl e \<longrightarrow>
      fst (cleanup_episodes w c) = Inl e) \<and>
   (process_movies w c xs = (Inr u, c1) \<and> process_movie w c1 x = (Inl e, c2) \<longrightarrow>
      process_movies w c (xs @ x # rest) = (Inl e, c2)) \<and>
   (process_episodes w c xs = (Inr u, c1) \<and> process_episode w c1 x = (Inl e, c2) \<longrightarrow>
      process_episodes w c (xs @ x # rest) = (Inl e, c2)) \<and>
   (fst (find_radarr_movie_by_path w m path) = Inl e
      \<longleftrightarrow> movies_cache m = None \<and> radarr_movie_GET w (sent m) = Inl e) \<and>
   (get_all_radarr_movies w m = (Inr movies, m1) \<and>
    match_movie_path m1 (normalize_path path (jellyfin_movie_prefix m1)) movies = None \<longrightarrow>
      find_radarr_movie_by_path w m path = (Inr None, m1)) \<and>
   (process_movie w c x = (Inr u, c1) \<longrightarrow>
      process_movies w c (x # rest) = process_movies w c1 rest)"
proof (intro conjI impI)
  assume "run w c = (Inr st, c')"
  then show "all_answered w (mapper c) (mapper c')" by (rule run_answered)
next
  show "summaries (snd (run w c)) = summaries c @ [stats (snd (run w c))]"
    by (rule run_prints_summary)
next
  assume "process_movies w c xs = (Inr u, c1) \<and> process_movie w c1 x = (Inl e, c2)"
  then show "process_movies w c (xs @ x # rest) = (Inl e, c2)"
    using process_movies_stops_at_error by blast
next
  assume "process_episodes w c xs = (Inr u, c1) \<and> process_episode w c1 x = (Inl e, c2)"
  then show "process_episodes w c (xs @ x # rest) = (Inl e, c2)"
    using process_episodes_stops_at_error by blast
next
  show "fst (find_radarr_movie_by_path w m path) = Inl e
      \<longleftrightarrow> movies_cache m = None \<and> radarr_movie_GET w (sent m) = Inl e"
    by (auto simp: find_radarr_movie_by_path_def get_all_radarr_movies_def Let_def
             split: option.splits sum.splits)
qed (auto simp: run_def print_summary_def cleanup_movies_def cleanup_episodes_def
       get_jellyfin_watched_movies_def get_jellyfin_watched_episodes_def
       find_radarr_movie_by_path_def)

theorem transport_errors_propagate_witness:
  "run radarr_down (demo_cleanup False)
     = (Inl TransportError,
        (demo_cleanup False)
          \<lparr>stats := CleanupStats_init\<lparr>movies_watched := 7, movies_eligible := 1\<rparr>,
           mapper := (mapper (demo_cleanup False))
                       \<lparr>sent := [GET_Users, GET_radarr_tag, GET_sonarr_tag,
                                 GET_watched_movies ''u1'', GET_radarr_movie]\<rparr>,
           ticks := 2,
           summaries := [CleanupStats_init\<lparr>movies_watched := 7, movies_eligible := 1\<rparr>]\<rparr>) \<and>
   all_answered demo_world (mapper (demo_cleanup False))
     (mapper (snd (run demo_world (demo_cleanup False)))) \<and>
   find_radarr_movie_by_path demo_world demo_cached ''/media/movies/Up (2009)/Up.mkv''
     = (Inr None, demo_cached) \<and>
   fst (find_radarr_movie_by_path radarr_down (mapper (demo_cleanup False))
          ''/media/movies/Up (2009)/Up.mkv'') = Inl TransportError \<and>
   process_movies demo_world (demo_cleanup True) [up, matrix]
     = process_movies demo_world (snd (process_movie demo_world (demo_cleanup True) up)) [matrix] \<and>
   fst (run sonarr_down (demo_cleanup False)) = Inl TransportError \<and>
   summaries (snd (run sonarr_down (demo_cleanup False)))
     = [\<lparr>movies_watched = 7, movies_eligible = 5, movies_skipped_tag = 1,
         movies_skipped_not_found = 2, movies_deleted = 1, movies_failed = 1,
         episodes_watched = 2, episodes_eligible = 1, episodes_skipped_tag = 0,
         episodes_skipped_not_found = 0, episodes_deleted = 0, episodes_failed = 0\<rparr>] \<and>
   process_movies radarr_down (demo_cleanup False) [tenet, matrix, heat]
     = process_movie radarr_down (demo_cleanup False) matrix"
proof -
  let ?c = "demo_cleanup False"
  let ?c1 = "snd (cleanup_movies radarr_down ?c)"
  have m: "cleanup_movies radarr_down ?c = (Inl TransportError, ?c1)"
    by (rule prod_eqI) (code_simp, simp)
  have c1: "?c1\<lparr>summaries := summaries ?c1 @ [stats ?c1]\<rparr>
            = ?c\<lparr>stats := CleanupStats_init\<lparr>movies_watched := 7, movies_eligible := 1\<rparr>,
           mapper := (mapper ?c)
                       \<lparr>sent := [GET_Users, GET_radarr_tag, GET_sonarr_tag,
                                 GET_watched_movies ''u1'', GET_radarr_movie]\<rparr>,
           ticks := 2,
           summaries := [CleanupStats_init\<lparr>movies_watched := 7, movies_eligible := 1\<rparr>]\<rparr>"
    by code_simp
  note t1 = transport_errors_propagate[of radarr_down ?c _ _ TransportError ?c1]
  from t1 m c1 have a1: "run radarr_down ?c
     = (Inl TransportError,
        ?c\<lparr>stats := CleanupStats_init\<lparr>movies_watched := 7, movies_eligible := 1\<rparr>,
           mapper := (mapper ?c)
                       \<lparr>sent := [GET_Users, GET_radarr_tag, GET_sonarr_tag,
                                 GET_watched_movies ''u1'', GET_radarr_movie]\<rparr>,
           ticks := 2,
           summaries := [CleanupStats_init\<lparr>movies_watched := 7, movies_eligible := 1\<rparr>]\<rparr>)"
    by simp
  have r: "fst (run demo_world ?c)
     = Inr \<lparr>movies_watched = 7, movies_eligible = 5, movies_skipped_tag = 1,
            movies_skipped_not_found = 2, movies_deleted = 1, movies_failed = 1,
            episodes_watched = 2, episodes_eligible = 2, episodes_skipped_tag = 0,
            episodes_skipped_not_found = 1, episodes_deleted = 1, episodes_failed = 0\<rparr>"
    by code_simp
  note t2 = transport_errors_propagate[of demo_world ?c _ "snd (run demo_world ?c)"]
  from t2 r have a2: "all_answered demo_world (mapper ?c) (mapper (snd (run demo_world ?c)))"
    by (simp add: prod_eq_iff)
  have g: "get_all_radarr_movies demo_world demo_cached
           = (Inr (the (movies_cache demo_cached)), demo_cached)"
    by code_simp
  have n: "match_movie_path demo_cached
            (normalize_path ''/media/movies/Up (2009)/Up.mkv'' (jellyfin_movie_prefix demo_cached))
            (the (movies_cache demo_cached)) = None"
    by code_simp
  note t3 = transport_errors_propagate[of demo_world _ _ _ _ _ _ _ _ _ _ demo_cached
              "''/media/movies/Up (2009)/Up.mkv''" "the (movies_cache demo_cached)" demo_cached]
  from t3 g n have a3: "find_radarr_movie_by_path demo_world demo_cached
                          ''/media/movies/Up (2009)/Up.mkv'' = (Inr None, demo_cached)"
    by simp
  have d: "movies_cache (mapper ?c) = None \<and>
           radarr_movie_GET radarr_down (sent (mapper ?c)) = Inl TransportError"
    by code_simp
  note t4 = transport_errors_propagate[of radarr_down _ _ _ TransportError _ _ _ _ _ _ "mapper ?c"
              "''/media/movies/Up (2009)/Up.mkv''"]
  from t4 d have a4: "fst (find_radarr_movie_by_path radarr_down (mapper ?c)
          ''/media/movies/Up (2009)/Up.mkv'') = Inl TransportError"
    by simp
  let ?d = "demo_cleanup True"
  have p: "process_movie demo_world ?d up = (Inr (), snd (process_movie demo_world ?d up))"
    by (rule prod_eqI) (code_simp, simp)
  note t5 = transport_errors_propagate[of demo_world ?d _ _ _ "snd (process_movie demo_world ?d up)"
              "()" _ _ up "[matrix]"]
  from t5 p have a5: "process_movies demo_world ?d [up, matrix]
     = process_movies demo_world (snd (process_movie demo_world ?d up)) [matrix]"
    by simp
  let ?m1 = "snd (cleanup_movies sonarr_down ?c)"
  let ?e1 = "snd (cleanup_episodes sonarr_down ?m1)"
  have pm: "cleanup_movies sonarr_down ?c = (Inr (), ?m1)"
    by (rule prod_eqI) (code_simp, simp)
  have pe: "cleanup_episodes sonarr_down ?m1 = (Inl TransportError, ?e1)"
    by (rule prod_eqI) (code_simp, simp)
  have se: "summaries ?e1 = [] \<and> stats ?e1
     = \<lparr>movies_watched = 7, movies_eligible = 5, movies_skipped_tag = 1,
         movies_skipped_not_found = 2, movies_deleted = 1, movies_failed = 1,
         episodes_watched = 2, episodes_eligible = 1, episodes_skipped_tag = 0,
         episodes_skipped_not_found = 0, episodes_deleted = 0, episodes_failed = 0\<rparr>"
    by code_simp
  note t6 = transport_errors_propagate[where w = sonarr_down and c = ?c and u = "()"
              and ?c1.0 = ?m1 and e = TransportError and ?c2.0 = ?e1]
  from t6 pm pe se have a6: "fst (run sonarr_down ?c) = Inl TransportError"
    and a7: "summaries (snd (run sonarr_down ?c))
     = [\<lparr>movies_watched = 7, movies_eligible = 5, movies_skipped_tag = 1,
         movies_skipped_not_found = 2, movies_deleted = 1, movies_failed = 1,
         episodes_watched = 2, episodes_eligible = 1, episodes_skipped_tag = 0,
         episodes_skipped_not_found = 0, episodes_deleted = 0, episodes_failed = 0\<rparr>]"
    by simp_all
  let ?x = "snd (process_movie radarr_down ?c matrix)"
  have q1: "process_movies radarr_down ?c [tenet] = (Inr (), ?c)"
    by code_simp
  have q2: "process_movie radarr_down ?c matrix = (Inl TransportError, ?x)"
    by (rule prod_eqI) (code_simp, simp)
  note t7 = transport_errors_propagate[where w = radarr_down and c = ?c and xs = "[tenet]"
              and u = "()" and ?c1.0 = ?c and x = matrix and e = TransportError and ?c2.0 = ?x
              and rest = "[heat]"]
  from t7 q1 q2 have a8: "process_movies radarr_down ?c [tenet, matrix, heat]
     = process_movie radarr_down ?c matrix"
    by simp
  from a1 a2 a3 a4 a5 a6 a7 a8 show ?thesis by simp
qed

section \<open>Statistics accounting\<close>

text \<open>\<^verbatim>\<open>__init__\<close> starts from fresh statistics.\<close>

lemma MediaCleanup_init_stats:
  "MediaCleanup_init w cfg = Inr c \<Longrightarrow> stats c = CleanupStats_init"
  by (auto simp: MediaCleanup_init_def Let_def split: prod.splits sum.splits)

lemma demo_cleanup_is_init:
  "MediaCleanup_init demo_world (demo_config dry) = Inr (demo_cleanup dry)"
  by (cases dry) (simp_all, code_simp+)

text \<open>
  Claim C10, as amended. A run that starts from fresh statistics always ends with
  eligible \<open>\<le>\<close> watched for movies and for episodes, with \<^verbatim>\<open>episodes_skipped_tag\<close>
  at zero, and with the final statistics printed as its summary. When the run completes
  without raising, the outcome counters of each phase add up to its eligible counter:
  skipped-not-found + skipped-tag + deleted + failed for movies, and
  skipped-not-found + deleted + failed for episodes.
\<close>

theorem stats_accounting:
  assumes "stats c = CleanupStats_init" and "run w c = (r, c')"
  shows "movies_eligible (stats c') \<le> movies_watched (stats c') \<and>
         episodes_eligible (stats c') \<le> episodes_watched (stats c') \<and>
         episodes_skipped_tag (stats c') = 0 \<and>
         summaries c' = summaries c @ [stats c'] \<and>
         (case r of
            Inr st \<Rightarrow>
              st = stats c' \<and>
              movies_skipped_not_found st + movies_skipped_tag st + movies_deleted st
                + movies_failed st = movies_eligible st \<and>
              episodes_skipped_not_found st + episodes_deleted st + episodes_failed st
                = episodes_eligible st
          | Inl e \<Rightarrow> True)"
proof -
  obtain r1 c1 where m: "cleanup_movies w c = (r1, c1)"
    by (cases "cleanup_movies w c")
  note e1 = cleanup_movies_effect[OF m]
  show ?thesis
  proof (cases r1)
    case (Inl e)
    with assms m e1 show ?thesis
      by (auto simp: run_def print_summary_def stats_defs CleanupStats_init_def)
  next
    case (Inr u)
    obtain r2 c2 where ep: "cleanup_episodes w c1 = (r2, c2)"
      by (cases "cleanup_episodes w c1")
    note e2 = cleanup_episodes_effect[OF ep]
    from assms m ep Inr e1 e2 show ?thesis
      by (cases r2) (auto simp: run_def print_summary_def stats_defs CleanupStats_init_def)
  qed
qed

theorem stats_accounting_witness:
  "stats (demo_cleanup False) = CleanupStats_init \<and>
   fst (run demo_world (demo_cleanup False))
     = Inr \<lparr>movies_watched = 7, movies_eligible = 5, movies_skipped_tag = 1,
            movies_skipped_not_found = 2, movies_deleted = 1, movies_failed = 1,
            episodes_watched = 2, episodes_eligible = 2, episodes_skipped_tag = 0,
            episodes_skipped_not_found = 1, episodes_deleted = 1, episodes_failed = 0\<rparr> \<and>
   movies_eligible (stats (snd (run demo_world (demo_cleanup False))))
     \<le> movies_watched (stats (snd (run demo_world (demo_cleanup False)))) \<and>
   episodes_skipped_tag (stats (snd (run demo_world (demo_cleanup False)))) = 0 \<and>
   movies_eligible (stats (snd (run radarr_down (demo_cleanup False))))
     \<le> movies_watched (stats (snd (run radarr_down (demo_cleanup False))))"
proof -
  have h1: "stats (demo_cleanup False) = CleanupStats_init"
    by (simp add: demo_cleanup_def)
  have h2: "run demo_world (demo_cleanup False)
            = (fst (run demo_world (demo_cleanup False)), snd (run demo_world (demo_cleanup False)))"
    by simp
  have h3: "run radarr_down (demo_cleanup False)
            = (fst (run radarr_down (demo_cleanup False)), snd (run radarr_down (demo_cleanup False)))"
    by simp
  have r: "fst (run demo_world (demo_cleanup False))
     = Inr \<lparr>movies_watched = 7, movies_eligible = 5, movies_skipped_tag = 1,
            movies_skipped_not_found = 2, movies_deleted = 1, movies_failed = 1,
            episodes_watched = 2, episodes_eligible = 2, episodes_skipped_tag = 0,
            episodes_skipped_not_found = 1, episodes_deleted = 1, episodes_failed = 0\<rparr>"
    by code_simp
  from stats_accounting[OF h1 h2] stats_accounting[OF h1 h3] h1 r show ?thesis
    by simp
qed

text \<open>
  The sums need not agree after a run that a transport error aborts: the eligible
  counter is incremented before the catalog lookup. With Radarr unreachable, the first
  eligible movie is counted as eligible and nothing else, and the summary printed on the
  way out shows it.
\<close>

theorem stats_accounting_counterexample:
  "stats (demo_cleanup False) = CleanupStats_init \<and>
   fst (run radarr_down (demo_cleanup False)) = Inl TransportError \<and>
   summaries (snd (run radarr_down (demo_cleanup False)))
     = [stats (snd (run radarr_down (demo_cleanup False)))] \<and>
   movies_eligible (stats (snd (run radarr_down (demo_cleanup False)))) = 1 \<and>
   movies_skipped_not_found (stats (snd (run radarr_down (demo_cleanup False))))
     + movies_skipped_tag (stats (snd (run radarr_down (demo_cleanup False))))
     + movies_deleted (stats (snd (run radarr_down (demo_cleanup False))))
     + movies_failed (stats (snd (run radarr_down (demo_cleanup False))))
     \<noteq> movies_eligible (stats (snd (run radarr_down (demo_cleanup False))))"
  by code_simp

end
